theory Spec2Isabelle
  imports Main
begin

section \<open>Python values used by the pipeline\<close>

text \<open>
  The library \<^verbatim>\<open>lvmeteo\<close> (file \<^verbatim>\<open>lvmeteo/meteodata.py\<close>) builds a SQL string, sends it to
  the data.gov.lv datastore, and turns the JSON answer into a pandas table. The embedding
  below follows that file function by function. Exceptions are values: every function that
  can raise returns \<open>exn + 'a\<close>, with \<open>Inl\<close> for the raised exception. Logging calls are
  left out: they change nothing the functions return or raise.
\<close>

subsection \<open>Exceptions\<close>

text \<open>
  \<^verbatim>\<open>lvmeteo/exceptions.py\<close> declares \<^verbatim>\<open>ValidationError\<close>, \<^verbatim>\<open>APIError\<close> and
  \<^verbatim>\<open>DataNotFoundError\<close> (all under \<^verbatim>\<open>LVMeteoError\<close>). The transport names two
  \<^verbatim>\<open>subprocess\<close> exceptions; every other subclass of \<^verbatim>\<open>Exception\<close> is \<open>OtherException\<close>
  with its class name. An exception carries \<^verbatim>\<open>str(e)\<close> and its \<^verbatim>\<open>__cause__\<close>
  (set by \<^verbatim>\<open>raise ... from e\<close>).
\<close>

datatype exn_class =
    ValidationError
  | APIError
  | DataNotFoundError
  | TimeoutExpired
  | CalledProcessError
  | OtherException string

datatype exn = Exn exn_class string "exn option"

fun exn_class_of :: "exn \<Rightarrow> exn_class" where
  "exn_class_of (Exn c m cause) = c"

fun exn_str :: "exn \<Rightarrow> string" where
  "exn_str (Exn c m cause) = m"

fun exn_cause :: "exn \<Rightarrow> exn option" where
  "exn_cause (Exn c m cause) = cause"

subsection \<open>Decimal text of integers\<close>

definition digit_char :: "nat \<Rightarrow> char" where
  "digit_char n = char_of (48 + n)"

fun str_nat :: "nat \<Rightarrow> string" where
  "str_nat n = (if n < 10 then [digit_char n] else str_nat (n div 10) @ [digit_char (n mod 10)])"

declare str_nat.simps [simp del]

text \<open>\<^verbatim>\<open>str(i)\<close> for a Python int.\<close>

definition str_int :: "int \<Rightarrow> string" where
  "str_int i = (if i < 0 then CHR ''-'' # str_nat (nat (- i)) else str_nat (nat i))"

text \<open>\<^verbatim>\<open>"%0wd" % n\<close> for a non-negative \<open>n\<close>: at least \<open>w\<close> digits, padded with zeros.\<close>

definition zpad :: "nat \<Rightarrow> nat \<Rightarrow> string" where
  "zpad w n = replicate (w - length (str_nat n)) (CHR ''0'') @ str_nat n"

subsection \<open>Station and parameter arguments\<close>

text \<open>
  \<^verbatim>\<open>stations\<close> and \<^verbatim>\<open>parameters\<close> are declared \<^verbatim>\<open>Union[str, List[str]]\<close>. The code
  also accepts a scalar without \<^verbatim>\<open>__iter__\<close>; integers stand for those. \<open>One\<close> is a
  single scalar, \<open>Many\<close> a list (or any other iterable that is not a string).
\<close>

datatype pyatom = PStr string | PInt int

datatype pyarg = One pyatom | Many "pyatom list"

text \<open>Python truth value: \<^verbatim>\<open>not x\<close> is \<open>\<not> truthy x\<close>.\<close>

fun truthy :: "pyarg \<Rightarrow> bool" where
  "truthy (One (PStr s)) = (s \<noteq> [])"
| "truthy (One (PInt i)) = (i \<noteq> 0)"
| "truthy (Many xs) = (xs \<noteq> [])"

fun has_iter :: "pyarg \<Rightarrow> bool" where
  "has_iter (One (PStr s)) = True"
| "has_iter (One (PInt i)) = False"
| "has_iter (Many xs) = True"

fun is_str_or_bytes :: "pyarg \<Rightarrow> bool" where
  "is_str_or_bytes (One (PStr s)) = True"
| "is_str_or_bytes (One (PInt i)) = False"
| "is_str_or_bytes (Many xs) = False"

text \<open>
  Lines 90 to 93: \<^verbatim>\<open>if not hasattr(x, '__iter__') or isinstance(x, (str, bytes)): x = [x]\<close>.
  The test is \<open>wraps\<close>; it holds for a scalar and fails for a list, so a scalar becomes
  the one-element list and a list is taken as it is.
\<close>

definition wraps :: "pyarg \<Rightarrow> bool" where
  "wraps x = (\<not> has_iter x \<or> is_str_or_bytes x)"

fun normalize_arg :: "pyarg \<Rightarrow> pyatom list" where
  "normalize_arg (One a) = [a]"
| "normalize_arg (Many xs) = xs"

text \<open>\<^verbatim>\<open>f"{x}"\<close> for a list element.\<close>

fun format_atom :: "pyatom \<Rightarrow> string" where
  "format_atom (PStr s) = s"
| "format_atom (PInt i) = str_int i"

subsection \<open>datetime.datetime\<close>

text \<open>
  A \<^verbatim>\<open>datetime.datetime\<close> with its seven fields and its \<^verbatim>\<open>tzinfo\<close>: \<open>None\<close> for a naive
  value, \<open>Some off\<close> for an aware one, \<open>off\<close> being \<^verbatim>\<open>utcoffset()\<close> in whole seconds
  (fixed offsets, as \<^verbatim>\<open>datetime.timezone\<close> gives).
\<close>

record datetime =
  year :: nat
  month :: nat
  day :: nat
  hour :: nat
  minute :: nat
  second :: nat
  microsecond :: nat
  tzinfo :: "int option"

text \<open>
  What the caller passes as \<^verbatim>\<open>startdate\<close> or \<^verbatim>\<open>enddate\<close>: a datetime, or an object of
  another class (its class name is kept), for which \<^verbatim>\<open>isinstance(x, datetime.datetime)\<close>
  is false.
\<close>

datatype pyobj = PyDatetime datetime | PyOther string

definition is_leap :: "nat \<Rightarrow> bool" where
  "is_leap y = (y mod 4 = 0 \<and> (y mod 100 \<noteq> 0 \<or> y mod 400 = 0))"

definition days_before_year :: "nat \<Rightarrow> nat" where
  "days_before_year y = (let z = y - 1 in z * 365 + z div 4 - z div 100 + z div 400)"

definition days_before_month :: "nat \<Rightarrow> nat \<Rightarrow> nat" where
  "days_before_month y m =
     sum_list (take (m - 1) [31, 28, 31, 30, 31, 30, 31, 31, 30, 31, 30, 31])
       + (if 2 < m \<and> is_leap y then 1 else 0)"

text \<open>Microseconds since 0001-01-01T00:00:00 of the wall-clock fields.\<close>

definition wall_us :: "datetime \<Rightarrow> int" where
  "wall_us d =
     ((int (days_before_year (year d) + days_before_month (year d) (month d) + day d) * 86400
        + int (hour d) * 3600 + int (minute d) * 60 + int (second d)) * 1000000
      + int (microsecond d))"

text \<open>The tuple Python compares for two naive values (or two with the same offset).\<close>

definition fields_of :: "datetime \<Rightarrow> nat list" where
  "fields_of d = [year d, month d, day d, hour d, minute d, second d, microsecond d]"

fun lex_less :: "nat list \<Rightarrow> nat list \<Rightarrow> bool" where
  "lex_less [] ys = (ys \<noteq> [])"
| "lex_less (x # xs) [] = False"
| "lex_less (x # xs) (y # ys) = (x < y \<or> (x = y \<and> lex_less xs ys))"

text \<open>
  \<^verbatim>\<open>a >= b\<close> on datetimes. Naive against aware raises \<^verbatim>\<open>TypeError\<close>; two aware values
  with different offsets are compared as instants.
\<close>

definition datetime_ge :: "datetime \<Rightarrow> datetime \<Rightarrow> exn + bool" where
  "datetime_ge a b =
     (case (tzinfo a, tzinfo b) of
        (None, None) \<Rightarrow> Inr (\<not> lex_less (fields_of a) (fields_of b))
      | (Some oa, Some ob) \<Rightarrow>
          (if oa = ob then Inr (\<not> lex_less (fields_of a) (fields_of b))
           else Inr (wall_us b - ob * 1000000 \<le> wall_us a - oa * 1000000))
      | _ \<Rightarrow> Inl (Exn (OtherException ''TypeError'')
                 ''can't compare offset-naive and offset-aware datetimes'' None))"

text \<open>\<^verbatim>\<open>a < b\<close>, with the same \<^verbatim>\<open>TypeError\<close>.\<close>

definition datetime_lt :: "datetime \<Rightarrow> datetime \<Rightarrow> exn + bool" where
  "datetime_lt a b = (case datetime_ge a b of Inl e \<Rightarrow> Inl e | Inr g \<Rightarrow> Inr (\<not> g))"

text \<open>The offset suffix of \<^verbatim>\<open>isoformat()\<close>: \<^verbatim>\<open>+HH:MM\<close>, with \<^verbatim>\<open>:SS\<close> when not zero.\<close>

definition format_offset :: "int \<Rightarrow> string" where
  "format_offset off =
     (let sign = (if off < 0 then CHR ''-'' else CHR ''+'');
          a = nat \<bar>off\<bar>;
          hh = a div 3600; mm = (a mod 3600) div 60; ss = a mod 60
      in sign # zpad 2 hh @ '':'' @ zpad 2 mm @ (if ss \<noteq> 0 then '':'' @ zpad 2 ss else []))"

text \<open>\<^verbatim>\<open>datetime.isoformat()\<close> with the default separator and \<^verbatim>\<open>timespec='auto'\<close>.\<close>

definition isoformat :: "datetime \<Rightarrow> string" where
  "isoformat d =
     zpad 4 (year d) @ ''-'' @ zpad 2 (month d) @ ''-'' @ zpad 2 (day d) @ ''T''
       @ zpad 2 (hour d) @ '':'' @ zpad 2 (minute d) @ '':'' @ zpad 2 (second d)
       @ (if microsecond d \<noteq> 0 then ''.'' @ zpad 6 (microsecond d) else [])
       @ (case tzinfo d of None \<Rightarrow> [] | Some off \<Rightarrow> format_offset off)"

section \<open>Query builder\<close>

definition dq :: char where
  "dq = CHR 0x22"

definition sq :: char where
  "sq = CHR 0x27"

text \<open>\<^verbatim>\<open>",".join(xs)\<close>.\<close>

fun join_comma :: "string list \<Rightarrow> string" where
  "join_comma [] = []"
| "join_comma [x] = x"
| "join_comma (x # y # ys) = x @ '','' @ join_comma (y # ys)"

text \<open>\<^verbatim>\<open>",".join(map(lambda x: f"'{x}'", xs))\<close>: no escaping of the element.\<close>

definition quoted_list :: "pyatom list \<Rightarrow> string" where
  "quoted_list xs = join_comma (map (\<lambda>x. [sq] @ format_atom x @ [sq]) xs)"

text \<open>The template \<^verbatim>\<open>base_sql\<close> of line 87 with its five fields filled in.\<close>

definition base_sql :: "string \<Rightarrow> string \<Rightarrow> string \<Rightarrow> string \<Rightarrow> string \<Rightarrow> string" where
  "base_sql table station_list parameter_list startdate enddate =
     ''SELECT * from '' @ [dq] @ table @ [dq]
       @ '' WHERE '' @ [dq] @ ''STATION_ID'' @ [dq] @ '' in ('' @ station_list @ '')''
       @ '' and '' @ [dq] @ ''ABBREVIATION'' @ [dq] @ '' in ('' @ parameter_list @ '')''
       @ '' and '' @ [dq] @ ''DATETIME'' @ [dq] @ '' BETWEEN '' @ [sq] @ startdate @ [sq]
       @ '' and '' @ [sq] @ enddate @ [sq]"

text \<open>
  \<^verbatim>\<open>create_lv_meteo_data_sql\<close>, lines 50 to 107. The six checks come in the source's
  order; the comparison \<^verbatim>\<open>startdate >= enddate\<close> can itself raise.
\<close>

definition create_lv_meteo_data_sql ::
  "string \<Rightarrow> pyarg \<Rightarrow> pyarg \<Rightarrow> pyobj \<Rightarrow> pyobj \<Rightarrow> exn + string" where
  "create_lv_meteo_data_sql table stations parameters startdate enddate =
     (if table = [] then Inl (Exn ValidationError ''Table name cannot be empty'' None)
      else if \<not> truthy stations then
        Inl (Exn ValidationError ''Stations list cannot be empty'' None)
      else if \<not> truthy parameters then
        Inl (Exn ValidationError ''Parameters list cannot be empty'' None)
      else
        (case startdate of
           PyOther c \<Rightarrow> Inl (Exn ValidationError ''Start date must be a datetime object'' None)
         | PyDatetime s \<Rightarrow>
             (case enddate of
                PyOther c \<Rightarrow>
                  Inl (Exn ValidationError ''End date must be a datetime object'' None)
              | PyDatetime e \<Rightarrow>
                  (case datetime_ge s e of
                     Inl err \<Rightarrow> Inl err
                   | Inr True \<Rightarrow>
                       Inl (Exn ValidationError ''Start date must be before end date'' None)
                   | Inr False \<Rightarrow>
                       (let parameter_list = quoted_list (normalize_arg parameters);
                            station_list = quoted_list (normalize_arg stations)
                        in Inr (base_sql table station_list parameter_list
                                  (isoformat s) (isoformat e)))))))"

section \<open>Decoded JSON\<close>

text \<open>
  What \<^verbatim>\<open>json.loads\<close> and \<^verbatim>\<open>response.json()\<close> return: \<^verbatim>\<open>None\<close>, \<^verbatim>\<open>bool\<close>,
  \<^verbatim>\<open>int\<close>, \<^verbatim>\<open>float\<close>, \<^verbatim>\<open>str\<close>, \<^verbatim>\<open>list\<close> and \<^verbatim>\<open>dict\<close>. A dict is an association
  list in insertion order with distinct keys; a float is \<open>m * 2 ^ e\<close> or one of the three
  special values.
\<close>

datatype pyfloat = Finite int int | PosInf | NegInf | NaN

datatype json =
    JNull
  | JBool bool
  | JInt int
  | JFloat pyfloat
  | JStr string
  | JList "json list"
  | JDict "(string \<times> json) list"

fun json_truthy :: "json \<Rightarrow> bool" where
  "json_truthy JNull = False"
| "json_truthy (JBool b) = b"
| "json_truthy (JInt i) = (i \<noteq> 0)"
| "json_truthy (JFloat f) = (case f of Finite m e \<Rightarrow> m \<noteq> 0 | _ \<Rightarrow> True)"
| "json_truthy (JStr s) = (s \<noteq> [])"
| "json_truthy (JList xs) = (xs \<noteq> [])"
| "json_truthy (JDict kvs) = (kvs \<noteq> [])"

fun type_name :: "json \<Rightarrow> string" where
  "type_name JNull = ''NoneType''"
| "type_name (JBool b) = ''bool''"
| "type_name (JInt i) = ''int''"
| "type_name (JFloat f) = ''float''"
| "type_name (JStr s) = ''str''"
| "type_name (JList xs) = ''list''"
| "type_name (JDict kvs) = ''dict''"

text \<open>\<^verbatim>\<open>x.get(key, default)\<close>: only a dict has the method.\<close>

fun py_get :: "json \<Rightarrow> string \<Rightarrow> json \<Rightarrow> exn + json" where
  "py_get (JDict kvs) key dflt =
     Inr (case map_of kvs key of None \<Rightarrow> dflt | Some v \<Rightarrow> v)"
| "py_get x key dflt =
     Inl (Exn (OtherException ''AttributeError'')
            ([sq] @ type_name x @ [sq] @ '' object has no attribute '' @ [sq] @ ''get'' @ [sq])
            None)"

text \<open>
  \<^verbatim>\<open>x[key]\<close> with a string key: \<^verbatim>\<open>KeyError\<close> on a dict without it, \<^verbatim>\<open>TypeError\<close>
  elsewhere. The message texts of the errors that the interpreter raises are those of
  CPython 3.10 (3.11 words some of them differently); no property below depends on them.
\<close>

fun py_subscript :: "json \<Rightarrow> string \<Rightarrow> exn + json" where
  "py_subscript (JDict kvs) key =
     (case map_of kvs key of
        None \<Rightarrow> Inl (Exn (OtherException ''KeyError'') ([sq] @ key @ [sq]) None)
      | Some v \<Rightarrow> Inr v)"
| "py_subscript (JList xs) key =
     Inl (Exn (OtherException ''TypeError'')
            ''list indices must be integers or slices, not str'' None)"
| "py_subscript (JStr s) key =
     Inl (Exn (OtherException ''TypeError'') ''string indices must be integers'' None)"
| "py_subscript x key =
     Inl (Exn (OtherException ''TypeError'')
            ([sq] @ type_name x @ [sq] @ '' object is not subscriptable'') None)"

text \<open>\<^verbatim>\<open>len(x)\<close>: defined for strings, lists and dicts.\<close>

fun py_len :: "json \<Rightarrow> exn + nat" where
  "py_len (JStr s) = Inr (length s)"
| "py_len (JList xs) = Inr (length xs)"
| "py_len (JDict kvs) = Inr (length kvs)"
| "py_len x =
     Inl (Exn (OtherException ''TypeError'')
            (''object of type '' @ [sq] @ type_name x @ [sq] @ '' has no len()'') None)"

text \<open>
  The elements a \<^verbatim>\<open>for\<close> loop visits: those of a list, the keys of a dict, the
  characters of a string; the other values are not iterable.
\<close>

fun py_iter :: "json \<Rightarrow> exn + json list" where
  "py_iter (JList xs) = Inr xs"
| "py_iter (JDict kvs) = Inr (map (\<lambda>kv. JStr (fst kv)) kvs)"
| "py_iter (JStr s) = Inr (map (\<lambda>c. JStr [c]) s)"
| "py_iter x =
     Inl (Exn (OtherException ''TypeError'')
            ([sq] @ type_name x @ [sq] @ '' object is not iterable'') None)"

section \<open>Transport\<close>

text \<open>Constants of \<^verbatim>\<open>lvmeteo/config.py\<close>.\<close>

definition API_BASE_URL :: string where
  "API_BASE_URL = ''https://data.gov.lv/dati/api/3/action/datastore_search_sql''"

definition DEFAULT_TIMEOUT :: nat where
  "DEFAULT_TIMEOUT = 30"

text \<open>
  A \<^verbatim>\<open>requests.Response\<close>: its status, its \<^verbatim>\<open>text\<close>, and what \<^verbatim>\<open>json()\<close> gives
  (the decoded body, or the exception of a body that is not JSON).
\<close>

record http_response =
  status_code :: int
  resp_text :: string
  resp_json :: "exn + json"

text \<open>\<^verbatim>\<open>Response.ok\<close> of the requests library: false for a status from 400 to 599.\<close>

definition ok :: "http_response \<Rightarrow> bool" where
  "ok r = (\<not> (400 \<le> status_code r \<and> status_code r < 600))"

text \<open>
  A call that leaves the process: \<^verbatim>\<open>requests.get(url, params=..., timeout=...)\<close> or
  \<^verbatim>\<open>subprocess.check_output(argv, shell=False, timeout=..., text=True)\<close>.
\<close>

datatype request =
    HttpGet string "(string \<times> string) list" nat
  | CheckOutput "string list" nat

text \<open>
  The outside world: what each such call answers (a value, or the exception it raises),
  and \<^verbatim>\<open>json.loads\<close>. \<open>repr_json\<close> is Python's text for the JSON values whose
  \<^verbatim>\<open>str()\<close> is not spelled out below (floats, lists, dicts).
\<close>

record network =
  requests_get :: "string \<Rightarrow> (string \<times> string) list \<Rightarrow> nat \<Rightarrow> exn + http_response"
  check_output :: "string list \<Rightarrow> nat \<Rightarrow> exn + string"
  json_loads :: "string \<Rightarrow> exn + json"
  repr_json :: "json \<Rightarrow> string"

text \<open>\<^verbatim>\<open>f"{x}"\<close> for a decoded JSON value.\<close>

fun py_str :: "network \<Rightarrow> json \<Rightarrow> string" where
  "py_str w JNull = ''None''"
| "py_str w (JBool b) = (if b then ''True'' else ''False'')"
| "py_str w (JInt i) = str_int i"
| "py_str w (JStr s) = s"
| "py_str w x = repr_json w x"

text \<open>
  The three \<^verbatim>\<open>except\<close> clauses of \<^verbatim>\<open>get_response_from_lv_data\<close> (lines 160 to 171), in
  the source's order. The last one catches every \<^verbatim>\<open>Exception\<close>, the package's own
  classes included: the function has no clause that lets them pass.
\<close>

fun transport_except :: "exn \<Rightarrow> exn" where
  "transport_except (Exn TimeoutExpired m c) =
     Exn APIError (''Request timed out: '' @ m) (Some (Exn TimeoutExpired m c))"
| "transport_except (Exn CalledProcessError m c) =
     Exn APIError (''Curl command failed: '' @ m) (Some (Exn CalledProcessError m c))"
| "transport_except (Exn k m c) =
     Exn APIError (''Unexpected error during API request: '' @ m) (Some (Exn k m c))"

text \<open>The body of the \<^verbatim>\<open>try\<close> block, lines 136 to 158, with the call it makes.\<close>

definition transport_try :: "network \<Rightarrow> string \<Rightarrow> bool \<Rightarrow> string \<Rightarrow> (exn + json) \<times> request" where
  "transport_try w sql use_curl curlExePath =
     (if use_curl then
        (let options = [curlExePath, ''-G'', ''--data-urlencode'', ''sql='' @ sql, API_BASE_URL]
         in ((case check_output w options 400 of
                Inl e \<Rightarrow> Inl e
              | Inr rOutput \<Rightarrow> json_loads w rOutput),
             CheckOutput options 400))
      else
        ((case requests_get w API_BASE_URL [(''sql'', sql)] DEFAULT_TIMEOUT of
            Inl e \<Rightarrow> Inl e
          | Inr response \<Rightarrow>
              (if ok response then resp_json response
               else Inl (Exn APIError
                          (''API request failed with status '' @ str_int (status_code response)
                             @ '': '' @ resp_text response) None))),
         HttpGet API_BASE_URL [(''sql'', sql)] DEFAULT_TIMEOUT))"

text \<open>
  \<^verbatim>\<open>get_response_from_lv_data\<close>, lines 110 to 171. The state is the list of calls made
  so far; the function returns it with its own call added, if it made one.
\<close>

definition get_response_from_lv_data ::
  "network \<Rightarrow> string \<Rightarrow> bool \<Rightarrow> string \<Rightarrow> request list \<Rightarrow> (exn + json) \<times> request list" where
  "get_response_from_lv_data w sql use_curl curlExePath calls =
     (if sql = [] then (Inl (Exn ValidationError ''SQL query cannot be empty'' None), calls)
      else
        (case transport_try w sql use_curl curlExePath of
           (Inr data, rq) \<Rightarrow> (Inr data, calls @ [rq])
         | (Inl e, rq) \<Rightarrow> (Inl (transport_except e), calls @ [rq])))"

section \<open>Response normalizer\<close>

subsection \<open>Tables\<close>

text \<open>
  A cell of a pandas table: \<^verbatim>\<open>None\<close>, the missing-value sentinels \<^verbatim>\<open>NaN\<close> and
  \<^verbatim>\<open>NaT\<close>, a scalar, a timestamp, or a nested JSON value kept as an object. A table is
  its index and its labelled columns, in order; every column is as long as the index.
\<close>

datatype cell =
    CNone
  | CNaN
  | CNaT
  | CBool bool
  | CInt int
  | CFloat pyfloat
  | CStr string
  | CTime datetime
  | CObj json

datatype index = RangeIndex nat | ColumnIndex string "cell list"

record dataframe =
  df_index :: index
  df_columns :: "(string \<times> cell list) list"

fun index_len :: "index \<Rightarrow> nat" where
  "index_len (RangeIndex n) = n"
| "index_len (ColumnIndex name vals) = length vals"

text \<open>\<^verbatim>\<open>df.empty\<close>: an axis of length 0.\<close>

definition df_empty :: "dataframe \<Rightarrow> bool" where
  "df_empty df = (index_len (df_index df) = 0 \<or> df_columns df = [])"

text \<open>\<^verbatim>\<open>df.columns\<close> as a list of labels.\<close>

definition column_labels :: "dataframe \<Rightarrow> string list" where
  "column_labels df = map fst (df_columns df)"

text \<open>\<^verbatim>\<open>pd.DataFrame()\<close>.\<close>

definition empty_frame :: dataframe where
  "empty_frame = \<lparr>df_index = RangeIndex 0, df_columns = []\<rparr>"

fun cell_of :: "json \<Rightarrow> cell" where
  "cell_of JNull = CNone"
| "cell_of (JBool b) = CBool b"
| "cell_of (JInt i) = CInt i"
| "cell_of (JFloat f) = CFloat f"
| "cell_of (JStr s) = CStr s"
| "cell_of x = CObj x"

text \<open>The distinct elements in the order of their first occurrence, as a dict keeps keys.\<close>

definition uniq :: "'a list \<Rightarrow> 'a list" where
  "uniq xs = rev (remdups (rev xs))"

subsection \<open>The pandas calls\<close>

text \<open>
  pandas is not part of the repository; what the code needs of it is a parameter.
  \<^item> \<open>astype_keeps_na\<close>: whether \<^verbatim>\<open>Series.astype('str')\<close> leaves a missing value missing.
    Through pandas 2 it does not (every element goes through \<^verbatim>\<open>str()\<close>, so \<^verbatim>\<open>None\<close>
    becomes the text \<^verbatim>\<open>'None'\<close>); pandas 3 keeps it. \<^verbatim>\<open>setup.py\<close> asks for
    \<^verbatim>\<open>pandas>=1.0.0\<close>, which admits both.
  \<^item> \<open>infer_column\<close>: what \<^verbatim>\<open>pd.DataFrame\<close> stores for one column built from the
    given Python values, after it has inferred the column's dtype (the integers of a
    column with a missing entry are stored as floats and the missing entry as \<^verbatim>\<open>NaN\<close>,
    so that column later reads \<^verbatim>\<open>1.0\<close>, not \<^verbatim>\<open>1\<close>). It keeps the length.
  \<^item> \<open>repr_cell\<close>: \<^verbatim>\<open>str()\<close> of the cells whose text is not spelled out below.
  \<^item> \<open>parse_numeric\<close>, \<open>parse_datetime\<close>: the value \<^verbatim>\<open>pd.to_numeric\<close> and
    \<^verbatim>\<open>pd.to_datetime\<close> read from one cell, \<open>None\<close> when they cannot parse it.
  \<^item> \<open>frame_of_other\<close>: \<^verbatim>\<open>pd.DataFrame(x)\<close> for an \<open>x\<close> that is not a list of dicts.
  \<^item> \<open>pivot_long_to_wide\<close>: the chain of lines 283 to 286 (\<^verbatim>\<open>tz_localize\<close>,
    \<^verbatim>\<open>drop_duplicates\<close>, \<^verbatim>\<open>set_index\<close>, \<^verbatim>\<open>sort_index\<close>, \<^verbatim>\<open>unstack\<close>, \<^verbatim>\<open>['value']\<close>).
\<close>

record pandas =
  infer_column :: "cell list \<Rightarrow> cell list"
  astype_keeps_na :: bool
  repr_cell :: "cell \<Rightarrow> string"
  parse_numeric :: "cell \<Rightarrow> cell option"
  parse_datetime :: "cell \<Rightarrow> cell option"
  frame_of_other :: "json \<Rightarrow> exn + dataframe"
  pivot_long_to_wide :: "dataframe \<Rightarrow> exn + dataframe"

text \<open>
  \<^verbatim>\<open>pd.DataFrame(rows)\<close> for a list of dicts: one row per dict, the columns are the keys
  in the order in which they first occur, a key that a dict does not have gives \<^verbatim>\<open>NaN\<close>,
  and each column is stored as pandas infers it.
\<close>

definition frame_of_rows :: "pandas \<Rightarrow> (string \<times> json) list list \<Rightarrow> dataframe" where
  "frame_of_rows pd rows =
     \<lparr>df_index = RangeIndex (length rows),
      df_columns =
        map (\<lambda>c. (c, infer_column pd
                       (map (\<lambda>r. case map_of r c of None \<Rightarrow> CNaN | Some v \<Rightarrow> cell_of v) rows)))
          (uniq (concat (map (map fst) rows)))\<rparr>"

fun is_na :: "cell \<Rightarrow> bool" where
  "is_na CNone = True"
| "is_na CNaN = True"
| "is_na CNaT = True"
| "is_na c = False"

text \<open>\<^verbatim>\<open>str(x)\<close> for the value in a cell.\<close>

fun cell_str :: "pandas \<Rightarrow> cell \<Rightarrow> string" where
  "cell_str pd CNone = ''None''"
| "cell_str pd CNaN = ''nan''"
| "cell_str pd CNaT = ''NaT''"
| "cell_str pd (CBool b) = (if b then ''True'' else ''False'')"
| "cell_str pd (CInt i) = str_int i"
| "cell_str pd (CStr s) = s"
| "cell_str pd c = repr_cell pd c"

text \<open>\<^verbatim>\<open>Series.astype('str')\<close>.\<close>

definition astype_str :: "pandas \<Rightarrow> cell list \<Rightarrow> cell list" where
  "astype_str pd col =
     map (\<lambda>c. if astype_keeps_na pd \<and> is_na c then CNaN else CStr (cell_str pd c)) col"

text \<open>
  The \<^verbatim>\<open>errors\<close> argument of \<^verbatim>\<open>pd.to_numeric\<close> and \<^verbatim>\<open>pd.to_datetime\<close>, as pandas
  documents it: \<^verbatim>\<open>'raise'\<close> raises on a cell that does not parse, \<^verbatim>\<open>'coerce'\<close> puts
  the sentinel there, \<^verbatim>\<open>'ignore'\<close> returns the input.
\<close>

datatype errors_mode = ErrorsRaise | ErrorsCoerce | ErrorsIgnore

definition parse_or :: "(cell \<Rightarrow> cell option) \<Rightarrow> cell \<Rightarrow> cell \<Rightarrow> cell" where
  "parse_or parse sentinel c = (case parse c of None \<Rightarrow> sentinel | Some v \<Rightarrow> v)"

definition convert_column ::
  "(cell \<Rightarrow> cell option) \<Rightarrow> cell \<Rightarrow> errors_mode \<Rightarrow> cell list \<Rightarrow> exn + cell list" where
  "convert_column parse sentinel errors col =
     (case errors of
        ErrorsCoerce \<Rightarrow> Inr (map (parse_or parse sentinel) col)
      | ErrorsRaise \<Rightarrow>
          (if list_all (\<lambda>c. parse c \<noteq> None) col then Inr (map (parse_or parse sentinel) col)
           else Inl (Exn (OtherException ''ValueError'') ''Unable to parse'' None))
      | ErrorsIgnore \<Rightarrow>
          (if list_all (\<lambda>c. parse c \<noteq> None) col then Inr (map (parse_or parse sentinel) col)
           else Inr col))"

definition to_numeric :: "pandas \<Rightarrow> errors_mode \<Rightarrow> cell list \<Rightarrow> exn + cell list" where
  "to_numeric pd errors col = convert_column (parse_numeric pd) CNaN errors col"

definition to_datetime :: "pandas \<Rightarrow> errors_mode \<Rightarrow> cell list \<Rightarrow> exn + cell list" where
  "to_datetime pd errors col = convert_column (parse_datetime pd) CNaT errors col"

subsection \<open>records_to_dataframe_raw\<close>

text \<open>
  Line 190, \<^verbatim>\<open>field_dict = {v['id']: v['type'] for v in fields}\<close>: a later entry replaces
  an earlier one with the same id. A missing key raises \<^verbatim>\<open>KeyError\<close>, an id that is a
  list or a dict is not hashable. The dict is only ever asked for column labels, which
  are strings, so an id of another hashable type is never found and is not stored here.
\<close>

fun field_dict_of :: "json list \<Rightarrow> (string \<rightharpoonup> json) \<Rightarrow> exn + (string \<rightharpoonup> json)" where
  "field_dict_of [] acc = Inr acc"
| "field_dict_of (v # vs) acc =
     (case py_subscript v ''id'' of
        Inl e \<Rightarrow> Inl e
      | Inr k \<Rightarrow>
          (case py_subscript v ''type'' of
             Inl e \<Rightarrow> Inl e
           | Inr t \<Rightarrow>
               (case k of
                  JStr name \<Rightarrow> field_dict_of vs (acc(name \<mapsto> t))
                | JList xs \<Rightarrow>
                    Inl (Exn (OtherException ''TypeError'')
                           (''unhashable type: '' @ [sq] @ ''list'' @ [sq]) None)
                | JDict kvs \<Rightarrow>
                    Inl (Exn (OtherException ''TypeError'')
                           (''unhashable type: '' @ [sq] @ ''dict'' @ [sq]) None)
                | _ \<Rightarrow> field_dict_of vs acc)))"

text \<open>Line 192, \<^verbatim>\<open>{k: v.get(k) for k in columns}\<close> for one record \<open>v\<close>.\<close>

fun select_row :: "string list \<Rightarrow> json \<Rightarrow> exn + (string \<times> json) list" where
  "select_row [] v = Inr []"
| "select_row (k # ks) v =
     (case py_get v k JNull of
        Inl e \<Rightarrow> Inl e
      | Inr x \<Rightarrow> (case select_row ks v of Inl e \<Rightarrow> Inl e | Inr r \<Rightarrow> Inr ((k, x) # r)))"

fun select_rows :: "string list \<Rightarrow> json list \<Rightarrow> exn + (string \<times> json) list list" where
  "select_rows cs [] = Inr []"
| "select_rows cs (v # vs) =
     (case select_row cs v of
        Inl e \<Rightarrow> Inl e
      | Inr r \<Rightarrow> (case select_rows cs vs of Inl e \<Rightarrow> Inl e | Inr rs \<Rightarrow> Inr (r # rs)))"

fun is_dict :: "json \<Rightarrow> bool" where
  "is_dict (JDict kvs) = True"
| "is_dict x = False"

fun items :: "json \<Rightarrow> (string \<times> json) list" where
  "items (JDict kvs) = kvs"
| "items x = []"

text \<open>Lines 191 to 194: the table before any coercion.\<close>

definition build_frame :: "pandas \<Rightarrow> json \<Rightarrow> string list option \<Rightarrow> exn + dataframe" where
  "build_frame pd records columns =
     (case columns of
        Some cs \<Rightarrow>
          (case py_iter records of
             Inl e \<Rightarrow> Inl e
           | Inr vs \<Rightarrow>
               (case select_rows cs vs of
                  Inl e \<Rightarrow> Inl e
                | Inr rows \<Rightarrow> Inr (frame_of_rows pd rows)))
      | None \<Rightarrow>
          (case records of
             JList vs \<Rightarrow>
               (if list_all is_dict vs then Inr (frame_of_rows pd (map items vs))
                else frame_of_other pd records)
           | _ \<Rightarrow> frame_of_other pd records))"

text \<open>
  Lines 196 to 202 for one column: \<^verbatim>\<open>vtype\<close> is the type tag found for the column. The
  chain has three branches and no \<^verbatim>\<open>else\<close>: with any other tag the column stays as it
  is.
\<close>

definition coerce_column :: "pandas \<Rightarrow> json \<Rightarrow> cell list \<Rightarrow> exn + cell list" where
  "coerce_column pd vtype col =
     (if vtype = JStr ''text'' then Inr (astype_str pd col)
      else if vtype = JStr ''numeric'' then to_numeric pd ErrorsCoerce col
      else if vtype = JStr ''timestamp'' then to_datetime pd ErrorsCoerce col
      else Inr col)"

text \<open>Line 196, \<^verbatim>\<open>field_dict.get(c, 'text')\<close>.\<close>

definition vtype_of :: "(string \<rightharpoonup> json) \<Rightarrow> string \<Rightarrow> json" where
  "vtype_of field_dict c = (case field_dict c of None \<Rightarrow> JStr ''text'' | Some t \<Rightarrow> t)"

text \<open>The loop of line 195 over the columns, in order.\<close>

fun coerce_columns ::
  "pandas \<Rightarrow> (string \<rightharpoonup> json) \<Rightarrow> (string \<times> cell list) list \<Rightarrow> exn + (string \<times> cell list) list" where
  "coerce_columns pd field_dict [] = Inr []"
| "coerce_columns pd field_dict ((c, col) # rest) =
     (case coerce_column pd (vtype_of field_dict c) col of
        Inl e \<Rightarrow> Inl e
      | Inr col' \<Rightarrow>
          (case coerce_columns pd field_dict rest of
             Inl e \<Rightarrow> Inl e
           | Inr rest' \<Rightarrow> Inr ((c, col') # rest')))"

text \<open>\<^verbatim>\<open>records_to_dataframe_raw\<close>, lines 174 to 203.\<close>

definition records_to_dataframe_raw ::
  "pandas \<Rightarrow> json \<Rightarrow> json \<Rightarrow> string list option \<Rightarrow> exn + dataframe" where
  "records_to_dataframe_raw pd flds records columns =
     (case py_iter flds of
        Inl e \<Rightarrow> Inl e
      | Inr fs \<Rightarrow>
          (case field_dict_of fs Map.empty of
             Inl e \<Rightarrow> Inl e
           | Inr field_dict \<Rightarrow>
               (case build_frame pd records columns of
                  Inl e \<Rightarrow> Inl e
                | Inr df \<Rightarrow>
                    (case coerce_columns pd field_dict (df_columns df) of
                       Inl e \<Rightarrow> Inl e
                     | Inr cols \<Rightarrow> Inr (df\<lparr>df_columns := cols\<rparr>)))))"

subsection \<open>records_to_dataframe\<close>

text \<open>
  A field map (\<^verbatim>\<open>column_dict\<close>) is a dict from the friendly name to the API name, in
  insertion order. \<^verbatim>\<open>dict(zip(values, keys))\<close> keeps, for an API name that occurs twice,
  the last friendly name.
\<close>

definition inv_dict :: "(string \<times> string) list \<Rightarrow> (string \<rightharpoonup> string)" where
  "inv_dict column_dict = map_of (rev (zip (map snd column_dict) (map fst column_dict)))"

text \<open>\<^verbatim>\<open>df.rename(mapper, axis=1)\<close>: a label that the dict does not have is kept.\<close>

definition rename_columns :: "(string \<rightharpoonup> string) \<Rightarrow> dataframe \<Rightarrow> dataframe" where
  "rename_columns mapper df =
     df\<lparr>df_columns :=
          map (\<lambda>(c, col). ((case mapper c of None \<Rightarrow> c | Some n \<Rightarrow> n), col)) (df_columns df)\<rparr>"

text \<open>\<^verbatim>\<open>records_to_dataframe\<close>, lines 206 to 226.\<close>

definition records_to_dataframe ::
  "pandas \<Rightarrow> (string \<times> string) list \<Rightarrow> json \<Rightarrow> json \<Rightarrow> exn + dataframe" where
  "records_to_dataframe pd column_dict flds records =
     (case records_to_dataframe_raw pd flds records (Some (map snd column_dict)) of
        Inl e \<Rightarrow> Inl e
      | Inr df \<Rightarrow> Inr (rename_columns (inv_dict column_dict) df))"

section \<open>Public operations\<close>

text \<open>The field maps and resource identifiers of \<^verbatim>\<open>lvmeteo/config.py\<close> that the operations use.\<close>

definition STATION_COLUMNS :: "(string \<times> string) list" where
  "STATION_COLUMNS =
     [(''station_id'', ''STATION_ID''), (''name'', ''NAME''), (''WMO_id'', ''WMO_ID''),
      (''begin_date'', ''BEGIN_DATE''), (''end_date'', ''END_DATE''),
      (''longitude'', ''GEOGR1''), (''latitude'', ''GEOGR2''),
      (''elevation'', ''ELEVATION''), (''elevation_pressure'', ''ELEVATION_PRESSURE'')]"

definition DATA_COLUMNS :: "(string \<times> string) list" where
  "DATA_COLUMNS =
     [(''station_id'', ''STATION_ID''), (''param'', ''ABBREVIATION''),
      (''date'', ''DATETIME''), (''value'', ''VALUE'')]"

definition PARAM_COLUMNS :: "(string \<times> string) list" where
  "PARAM_COLUMNS =
     [(''param_id'', ''ABBREVIATION''), (''description_EN'', ''EN_DESCRIPTION''),
      (''description_LV'', ''LV_DESCRIPTION''), (''scale'', ''SCALE''),
      (''lower_limit'', ''LOWER_LIMIT''), (''upper_limit'', ''UPPER_LIMIT''),
      (''unit'', ''MEASUREMENT_UNIT'')]"

text \<open>
  The two \<^verbatim>\<open>except\<close> clauses that close \<^verbatim>\<open>get_lv_meteo_data\<close> (lines 291 to 296) and
  \<^verbatim>\<open>get_fromsql\<close> (lines 404 to 409): the package's three classes are raised again as
  they are, any other exception becomes an \<^verbatim>\<open>APIError\<close> whose message is the prefix and
  \<^verbatim>\<open>str(e)\<close> and whose cause is \<open>e\<close>.
\<close>

fun reraise_or_wrap :: "string \<Rightarrow> exn \<Rightarrow> exn" where
  "reraise_or_wrap prefix (Exn ValidationError m c) = Exn ValidationError m c"
| "reraise_or_wrap prefix (Exn APIError m c) = Exn APIError m c"
| "reraise_or_wrap prefix (Exn DataNotFoundError m c) = Exn DataNotFoundError m c"
| "reraise_or_wrap prefix (Exn k m c) = Exn APIError (prefix @ m) (Some (Exn k m c))"

subsection \<open>get_lv_meteo_data\<close>

text \<open>Lines 282 to 289: the reshaping and its guard.\<close>

definition reshape_step :: "pandas \<Rightarrow> dataframe \<Rightarrow> exn + dataframe" where
  "reshape_step pd df =
     (if ''date'' \<in> set (column_labels df) \<and> \<not> df_empty df then pivot_long_to_wide pd df
      else Inr df)"

text \<open>
  Lines 264 to 289: from the decoded envelope to the table. The f-string of line 278 is
  evaluated whatever the logging level, so \<^verbatim>\<open>len(records)\<close> is a step that can raise.
\<close>

definition meteo_data_of_response :: "network \<Rightarrow> pandas \<Rightarrow> json \<Rightarrow> exn + dataframe" where
  "meteo_data_of_response w pd data =
     (case py_get data ''success'' (JBool False) of
        Inl e \<Rightarrow> Inl e
      | Inr success \<Rightarrow>
          (if \<not> json_truthy success then
             (case py_get data ''error'' (JStr ''Unknown error'') of
                Inl e \<Rightarrow> Inl e
              | Inr err \<Rightarrow>
                  Inl (Exn APIError
                         (''API returned unsuccessful response: '' @ py_str w err) None))
           else
             (case py_get data ''result'' JNull of
                Inl e \<Rightarrow> Inl e
              | Inr result \<Rightarrow>
                  (if \<not> json_truthy result then
                     Inl (Exn DataNotFoundError ''No result data returned from API'' None)
                   else
                     (case py_get result ''records'' (JList []) of
                        Inl e \<Rightarrow> Inl e
                      | Inr records \<Rightarrow>
                          (if \<not> json_truthy records then Inr empty_frame
                           else
                             (case py_len records of
                                Inl e \<Rightarrow> Inl e
                              | Inr n \<Rightarrow>
                                  (case py_subscript result ''fields'' of
                                     Inl e \<Rightarrow> Inl e
                                   | Inr flds \<Rightarrow>
                                       (case records_to_dataframe pd DATA_COLUMNS flds records of
                                          Inl e \<Rightarrow> Inl e
                                        | Inr df \<Rightarrow> reshape_step pd df)))))))))"

text \<open>
  \<^verbatim>\<open>get_lv_meteo_data\<close>, lines 229 to 296. The call list is threaded through: the only
  step that adds to it is the transport.
\<close>

definition get_lv_meteo_data ::
  "network \<Rightarrow> pandas \<Rightarrow> string \<Rightarrow> pyarg \<Rightarrow> pyarg \<Rightarrow> pyobj \<Rightarrow> pyobj \<Rightarrow> bool \<Rightarrow> string
     \<Rightarrow> request list \<Rightarrow> (exn + dataframe) \<times> request list" where
  "get_lv_meteo_data w pd table stations parameters startdate enddate use_curl curl_exe_path calls =
     (let prefix = ''Unexpected error processing meteorological data: '' in
      case create_lv_meteo_data_sql table stations parameters startdate enddate of
        Inl e \<Rightarrow> (Inl (reraise_or_wrap prefix e), calls)
      | Inr sql \<Rightarrow>
          (case get_response_from_lv_data w sql use_curl curl_exe_path calls of
             (Inl e, calls') \<Rightarrow> (Inl (reraise_or_wrap prefix e), calls')
           | (Inr data, calls') \<Rightarrow>
               (case meteo_data_of_response w pd data of
                  Inl e \<Rightarrow> (Inl (reraise_or_wrap prefix e), calls')
                | Inr df \<Rightarrow> (Inr df, calls'))))"

subsection \<open>get_fromsql and get_table\<close>

text \<open>\<^verbatim>\<open>df.set_index(c)\<close>: the column becomes the index and leaves the columns.\<close>

definition set_index :: "string \<Rightarrow> dataframe \<Rightarrow> exn + dataframe" where
  "set_index c df =
     (case map_of (df_columns df) c of
        None \<Rightarrow> Inl (Exn (OtherException ''KeyError'') ([sq] @ c @ [sq]) None)
      | Some col \<Rightarrow>
          Inr \<lparr>df_index = ColumnIndex c col,
               df_columns = filter (\<lambda>kv. fst kv \<noteq> c) (df_columns df)\<rparr>)"

text \<open>Lines 396 to 402.\<close>

definition index_step :: "string option \<Rightarrow> dataframe \<Rightarrow> exn + dataframe" where
  "index_step index_col df =
     (case index_col of
        None \<Rightarrow> Inr df
      | Some c \<Rightarrow>
          (if \<not> df_empty df then
             (if c \<notin> set (column_labels df) then Inr df else set_index c df)
           else Inr df))"

text \<open>Lines 375 to 402: from the decoded envelope to the table.\<close>

definition fromsql_of_response ::
  "network \<Rightarrow> pandas \<Rightarrow> json \<Rightarrow> (string \<times> string) list option \<Rightarrow> string option
     \<Rightarrow> exn + dataframe" where
  "fromsql_of_response w pd data fieldmap index_col =
     (case py_get data ''success'' (JBool False) of
        Inl e \<Rightarrow> Inl e
      | Inr success \<Rightarrow>
          (if \<not> json_truthy success then
             (case py_get data ''error'' (JStr ''Unknown error'') of
                Inl e \<Rightarrow> Inl e
              | Inr err \<Rightarrow> Inl (Exn APIError (''SQL query failed: '' @ py_str w err) None))
           else
             (case py_get data ''result'' JNull of
                Inl e \<Rightarrow> Inl e
              | Inr result \<Rightarrow>
                  (if \<not> json_truthy result then
                     Inl (Exn DataNotFoundError ''No result data returned from SQL query'' None)
                   else
                     (case py_get result ''records'' (JList []) of
                        Inl e \<Rightarrow> Inl e
                      | Inr records \<Rightarrow>
                          (if \<not> json_truthy records then Inr empty_frame
                           else
                             (case py_len records of
                                Inl e \<Rightarrow> Inl e
                              | Inr n \<Rightarrow>
                                  (case py_subscript result ''fields'' of
                                     Inl e \<Rightarrow> Inl e
                                   | Inr flds \<Rightarrow>
                                       (case (case fieldmap of
                                                Some fm \<Rightarrow> records_to_dataframe pd fm flds records
                                              | None \<Rightarrow>
                                                  records_to_dataframe_raw pd flds records None) of
                                          Inl e \<Rightarrow> Inl e
                                        | Inr df \<Rightarrow> index_step index_col df)))))))))"

text \<open>
  \<^verbatim>\<open>get_fromsql\<close>, lines 349 to 409. The keyword arguments \<^verbatim>\<open>**x\<close> are the two
  transport options.
\<close>

definition get_fromsql ::
  "network \<Rightarrow> pandas \<Rightarrow> string \<Rightarrow> (string \<times> string) list option \<Rightarrow> string option
     \<Rightarrow> bool \<Rightarrow> string \<Rightarrow> request list \<Rightarrow> (exn + dataframe) \<times> request list" where
  "get_fromsql w pd sql fieldmap index_col use_curl curlExePath calls =
     (let prefix = ''Unexpected error executing SQL query: '' in
      case get_response_from_lv_data w sql use_curl curlExePath calls of
        (Inl e, calls') \<Rightarrow> (Inl (reraise_or_wrap prefix e), calls')
      | (Inr data, calls') \<Rightarrow>
          (case fromsql_of_response w pd data fieldmap index_col of
             Inl e \<Rightarrow> (Inl (reraise_or_wrap prefix e), calls')
           | Inr df \<Rightarrow> (Inr df, calls')))"

text \<open>Line 345: \<^verbatim>\<open>f"""SELECT * from "{table}" """\<close>, with the blank after the closing quote.\<close>

definition table_sql :: "string \<Rightarrow> string" where
  "table_sql table = ''SELECT * from '' @ [dq] @ table @ [dq] @ '' ''"

text \<open>\<^verbatim>\<open>get_table\<close>, lines 327 to 346.\<close>

definition get_table ::
  "network \<Rightarrow> pandas \<Rightarrow> string \<Rightarrow> (string \<times> string) list \<Rightarrow> string option
     \<Rightarrow> bool \<Rightarrow> string \<Rightarrow> request list \<Rightarrow> (exn + dataframe) \<times> request list" where
  "get_table w pd table fieldmap index_col use_curl curlExePath calls =
     get_fromsql w pd (table_sql table) (Some fieldmap) index_col use_curl curlExePath calls"

section \<open>Definitions used to state the properties\<close>

text \<open>
  The column that lines 196 to 202 leave for a type tag, as a total function: the three
  pandas calls are made in a mode that returns a column for every input.
\<close>

definition coerced_column :: "pandas \<Rightarrow> json \<Rightarrow> cell list \<Rightarrow> cell list" where
  "coerced_column pd vtype col =
     (if vtype = JStr ''text'' then astype_str pd col
      else if vtype = JStr ''numeric'' then map (parse_or (parse_numeric pd) CNaN) col
      else if vtype = JStr ''timestamp'' then map (parse_or (parse_datetime pd) CNaT) col
      else col)"

text \<open>
  A field entry that line 190 can read: a dict with an \<^verbatim>\<open>'id'\<close> that can be hashed and
  a \<^verbatim>\<open>'type'\<close>.
\<close>

fun field_ok :: "json \<Rightarrow> bool" where
  "field_ok (JDict kvs) =
     (case map_of kvs ''id'' of
        None \<Rightarrow> False
      | Some (JList xs) \<Rightarrow> False
      | Some (JDict d) \<Rightarrow> False
      | Some k \<Rightarrow> map_of kvs ''type'' \<noteq> None)"
| "field_ok x = False"

text \<open>
  The dtype inference of \<^verbatim>\<open>pd.DataFrame\<close> on the columns of the examples: a column of
  numbers and missing entries that is not all integers is stored as floats, with
  \<^verbatim>\<open>None\<close> as \<^verbatim>\<open>NaN\<close>; any other column (all integers, or with a string, a bool or a
  nested value in it) keeps its values.
\<close>

fun is_number :: "cell \<Rightarrow> bool" where
  "is_number (CInt i) = True"
| "is_number (CFloat f) = True"
| "is_number CNaN = True"
| "is_number c = False"

fun is_int :: "cell \<Rightarrow> bool" where
  "is_int (CInt i) = True"
| "is_int c = False"

fun as_float :: "cell \<Rightarrow> cell" where
  "as_float (CInt i) = CFloat (Finite i 0)"
| "as_float CNone = CNaN"
| "as_float c = c"

definition infer_float_column :: "cell list \<Rightarrow> cell list" where
  "infer_float_column col =
     (if list_all (\<lambda>c. is_number c \<or> c = CNone) col \<and> list_ex is_number col
         \<and> \<not> list_all is_int col
      then map as_float col else col)"

text \<open>\<^verbatim>\<open>str()\<close> of a float with an integral value, as in \<^verbatim>\<open>str(1.0) == '1.0'\<close>.\<close>

fun example_repr :: "cell \<Rightarrow> string" where
  "example_repr (CFloat (Finite m e)) = (if e = 0 then str_int m @ ''.0'' else ''<float>'')"
| "example_repr c = ''<object>''"

text \<open>
  An instance of the pandas parameters with the \<^verbatim>\<open>astype('str')\<close> of pandas 1 and 2.
  The parsers read integers and floats as numbers and nothing as a date; the reshaping
  raises, so that a result shows whether it ran. It serves to evaluate examples.
\<close>

definition pandas_through_2 :: pandas where
  "pandas_through_2 =
     \<lparr>infer_column = infer_float_column,
      astype_keeps_na = False,
      repr_cell = example_repr,
      parse_numeric = (\<lambda>c. case c of CInt i \<Rightarrow> Some (CInt i) | CFloat f \<Rightarrow> Some (CFloat f) | _ \<Rightarrow> None),
      parse_datetime = (\<lambda>c. None),
      frame_of_other =
        (\<lambda>x. Inl (Exn (OtherException ''ValueError'') ''DataFrame constructor not properly called!'' None)),
      pivot_long_to_wide =
        (\<lambda>df. Inl (Exn (OtherException ''ValueError'') ''reshaping ran'' None))\<rparr>"

text \<open>A server that answers every request with the same HTTP response.\<close>

definition network_answering :: "http_response \<Rightarrow> network" where
  "network_answering r =
     \<lparr>requests_get = (\<lambda>url params timeout. Inr r),
      check_output = (\<lambda>argv timeout. Inr (resp_text r)),
      json_loads = (\<lambda>s. resp_json r),
      repr_json = (\<lambda>x. ''<object>'')\<rparr>"

text \<open>A 200 answer whose body decodes to the given envelope.\<close>

definition ok_response :: "json \<Rightarrow> http_response" where
  "ok_response data = \<lparr>status_code = 200, resp_text = ''{...}'', resp_json = Inr data\<rparr>"

text \<open>Two envelopes with \<^verbatim>\<open>success\<close> true: one with an empty record list, one with no result.\<close>

definition envelope_empty :: "(string \<times> json) list" where
  "envelope_empty =
     [(''success'', JBool True),
      (''result'', JDict [(''fields'', JList []), (''records'', JList [])])]"

definition envelope_no_result :: "(string \<times> json) list" where
  "envelope_no_result = [(''success'', JBool True)]"

text \<open>Midnight of a day, naive.\<close>

definition midnight :: "nat \<Rightarrow> nat \<Rightarrow> nat \<Rightarrow> datetime" where
  "midnight y m d =
     \<lparr>year = y, month = m, day = d, hour = 0, minute = 0, second = 0, microsecond = 0,
      tzinfo = None\<rparr>"

text \<open>Field lists and record lists used in the examples.\<close>

definition text_fields :: json where
  "text_fields = JList [JDict [(''id'', JStr ''NAME''), (''type'', JStr ''text'')]]"

definition name_records :: json where
  "name_records = JList [JDict [(''NAME'', JStr ''Riga'')], JDict [(''NAME'', JNull)]]"

definition int4_fields :: json where
  "int4_fields = JList [JDict [(''id'', JStr ''a''), (''type'', JStr ''int4'')]]"

definition a_text_fields :: json where
  "a_text_fields = JList [JDict [(''id'', JStr ''a''), (''type'', JStr ''text'')]]"

definition a_records :: json where
  "a_records = JList [JDict [(''a'', JInt 5)]]"

definition number_records :: json where
  "number_records = JList [JDict [(''a'', JInt 1)], JDict [(''a'', JNull)]]"

definition typed_fields :: "json list" where
  "typed_fields =
     [JDict [(''id'', JStr ''VALUE''), (''type'', JStr ''numeric'')],
      JDict [(''id'', JStr ''DATETIME''), (''type'', JStr ''timestamp'')]]"

definition junk_records :: "json list" where
  "junk_records = [JDict [(''VALUE'', JStr ''abc''), (''DATETIME'', JStr ''junk'')]]"

section \<open>Properties of the query builder\<close>

text \<open>The test of lines 90 and 92 holds exactly for a scalar argument.\<close>

lemma wraps_iff_scalar: "wraps x = (\<exists>a. x = One a)"
  by (cases x rule: has_iter.cases) (simp_all add: wraps_def)

lemma create_sql_invalid:
  assumes "table = [] \<or> \<not> truthy stations \<or> \<not> truthy parameters
           \<or> (\<exists>c. startdate = PyOther c) \<or> (\<exists>c. enddate = PyOther c)
           \<or> (\<exists>s e. startdate = PyDatetime s \<and> enddate = PyDatetime e
                  \<and> datetime_ge s e = Inr True)"
  shows "\<exists>m. create_lv_meteo_data_sql table stations parameters startdate enddate
               = Inl (Exn ValidationError m None)"
  using assms
  by (auto simp: create_lv_meteo_data_sql_def split: pyobj.splits sum.splits bool.splits)

lemma datetime_ge_same_day:
  "datetime_ge (midnight 2024 2 3) (midnight 2024 2 3) = Inr True"
  by (simp add: datetime_ge_def midnight_def fields_of_def)

lemma datetime_lt_next_day:
  "datetime_lt (midnight 2024 2 3) (midnight 2024 2 4) = Inr True"
  by (simp add: datetime_lt_def datetime_ge_def midnight_def fields_of_def)

lemma isoformat_day_3: "isoformat (midnight 2024 2 3) = ''2024-02-03T00:00:00''"
  by code_simp

lemma isoformat_day_4: "isoformat (midnight 2024 2 4) = ''2024-02-04T00:00:00''"
  by code_simp

text \<open>
  Claim C1. Each invalid input on its own makes \<open>create_lv_meteo_data_sql\<close> raise
  \<^verbatim>\<open>ValidationError\<close>: an empty table string, an empty station argument, an empty
  parameter argument, a start or an end that is not a datetime, and a start that is not
  before the end. The result is then an exception, so no SQL string exists, and
  \<open>get_lv_meteo_data\<close> raises the same exception with the list of calls unchanged: no
  request has left the process.
\<close>

theorem invalid_input_raises_ValidationError:
  assumes "table = [] \<or> \<not> truthy stations \<or> \<not> truthy parameters
           \<or> (\<exists>c. startdate = PyOther c) \<or> (\<exists>c. enddate = PyOther c)
           \<or> (\<exists>s e. startdate = PyDatetime s \<and> enddate = PyDatetime e
                  \<and> datetime_ge s e = Inr True)"
  shows "\<exists>m. create_lv_meteo_data_sql table stations parameters startdate enddate
               = Inl (Exn ValidationError m None)
           \<and> get_lv_meteo_data w pd table stations parameters startdate enddate
               use_curl curl_exe_path calls
               = (Inl (Exn ValidationError m None), calls)"
proof -
  from create_sql_invalid [OF assms] obtain m where
    m: "create_lv_meteo_data_sql table stations parameters startdate enddate
          = Inl (Exn ValidationError m None)"
    by blast
  then have "get_lv_meteo_data w pd table stations parameters startdate enddate
               use_curl curl_exe_path calls
               = (Inl (Exn ValidationError m None), calls)"
    by (simp add: get_lv_meteo_data_def)
  with m show ?thesis by blast
qed

theorem invalid_input_raises_ValidationError_witness:
  "(\<exists>s e. PyDatetime (midnight 2024 2 3) = PyDatetime s
       \<and> PyDatetime (midnight 2024 2 3) = PyDatetime e \<and> datetime_ge s e = Inr True)
   \<and> (\<exists>m. create_lv_meteo_data_sql ''T1'' (Many [PStr ''A'']) (Many [PStr ''P1''])
              (PyDatetime (midnight 2024 2 3)) (PyDatetime (midnight 2024 2 3))
              = Inl (Exn ValidationError m None)
          \<and> get_lv_meteo_data (network_answering (ok_response JNull)) pandas_through_2
              ''T1'' (Many [PStr ''A'']) (Many [PStr ''P1''])
              (PyDatetime (midnight 2024 2 3)) (PyDatetime (midnight 2024 2 3)) False ''curl'' []
              = (Inl (Exn ValidationError m None), []))"
proof -
  have h: "\<exists>s e. PyDatetime (midnight 2024 2 3) = PyDatetime s
       \<and> PyDatetime (midnight 2024 2 3) = PyDatetime e \<and> datetime_ge s e = Inr True"
    using datetime_ge_same_day by blast
  then have "''T1'' = [] \<or> \<not> truthy (Many [PStr ''A'']) \<or> \<not> truthy (Many [PStr ''P1''])
           \<or> (\<exists>c. PyDatetime (midnight 2024 2 3) = PyOther c)
           \<or> (\<exists>c. PyDatetime (midnight 2024 2 3) = PyOther c)
           \<or> (\<exists>s e. PyDatetime (midnight 2024 2 3) = PyDatetime s
                  \<and> PyDatetime (midnight 2024 2 3) = PyDatetime e
                  \<and> datetime_ge s e = Inr True)"
    by blast
  from invalid_input_raises_ValidationError [OF this] h show ?thesis by blast
qed

text \<open>
  Claim C7. For a valid input (a table that is not empty, stations and parameters that
  are not empty, two datetimes with start before end) the function returns one SQL
  string of the stated shape: the table between double quotes, the station list after
  \<^verbatim>\<open>"STATION_ID"\<close>, the parameter list after \<^verbatim>\<open>"ABBREVIATION"\<close>, and the two dates in
  ISO 8601 form around \<^verbatim>\<open>BETWEEN\<close>. Each list is its elements, each between single
  quotes with no escaping, joined by commas. The source writes the keywords
  \<^verbatim>\<open>from\<close>, \<^verbatim>\<open>in\<close> and \<^verbatim>\<open>and\<close> in lower case, which SQL does not distinguish from
  capitals; the text below is the string exactly as returned.
\<close>

theorem create_sql_shape:
  assumes "table \<noteq> []" and "truthy stations" and "truthy parameters"
    and "datetime_lt s e = Inr True"
  shows "create_lv_meteo_data_sql table stations parameters (PyDatetime s) (PyDatetime e)
     = Inr (''SELECT * from '' @ [dq] @ table @ [dq]
       @ '' WHERE '' @ [dq] @ ''STATION_ID'' @ [dq] @ '' in (''
       @ join_comma (map (\<lambda>x. [sq] @ format_atom x @ [sq]) (normalize_arg stations)) @ '')''
       @ '' and '' @ [dq] @ ''ABBREVIATION'' @ [dq] @ '' in (''
       @ join_comma (map (\<lambda>x. [sq] @ format_atom x @ [sq]) (normalize_arg parameters)) @ '')''
       @ '' and '' @ [dq] @ ''DATETIME'' @ [dq] @ '' BETWEEN '' @ [sq] @ isoformat s @ [sq]
       @ '' and '' @ [sq] @ isoformat e @ [sq])"
proof -
  from assms(4) have "datetime_ge s e = Inr False"
    by (auto simp: datetime_lt_def split: sum.splits)
  with assms(1-3) show ?thesis
    by (simp add: create_lv_meteo_data_sql_def base_sql_def quoted_list_def)
qed

theorem create_sql_shape_witness:
  "''T1'' \<noteq> [] \<and> truthy (Many [PStr ''A'', PStr ''B'']) \<and> truthy (One (PStr ''P1''))
   \<and> datetime_lt (midnight 2024 2 3) (midnight 2024 2 4) = Inr True
   \<and> create_lv_meteo_data_sql ''T1'' (Many [PStr ''A'', PStr ''B'']) (One (PStr ''P1''))
       (PyDatetime (midnight 2024 2 3)) (PyDatetime (midnight 2024 2 4))
     = Inr (''SELECT * from '' @ [dq] @ ''T1'' @ [dq] @ '' WHERE '' @ [dq] @ ''STATION_ID'' @ [dq]
        @ '' in ('' @ [sq] @ ''A'' @ [sq] @ '','' @ [sq] @ ''B'' @ [sq] @ '') and ''
        @ [dq] @ ''ABBREVIATION'' @ [dq] @ '' in ('' @ [sq] @ ''P1'' @ [sq] @ '') and ''
        @ [dq] @ ''DATETIME'' @ [dq] @ '' BETWEEN '' @ [sq] @ ''2024-02-03T00:00:00'' @ [sq]
        @ '' and '' @ [sq] @ ''2024-02-04T00:00:00'' @ [sq])"
  using create_sql_shape [of "''T1''" "Many [PStr ''A'', PStr ''B'']" "One (PStr ''P1'')"
      "midnight 2024 2 3" "midnight 2024 2 4"]
  by (simp add: datetime_lt_next_day isoformat_day_3 isoformat_day_4)

lemma scalar_station:
  "truthy (One a) \<Longrightarrow>
   create_lv_meteo_data_sql table (One a) parameters startdate enddate
     = create_lv_meteo_data_sql table (Many [a]) parameters startdate enddate"
  by (simp add: create_lv_meteo_data_sql_def split: pyobj.splits sum.splits bool.splits)

lemma scalar_parameter:
  "truthy (One b) \<Longrightarrow>
   create_lv_meteo_data_sql table stations (One b) startdate enddate
     = create_lv_meteo_data_sql table stations (Many [b]) startdate enddate"
  by (simp add: create_lv_meteo_data_sql_def split: pyobj.splits sum.splits bool.splits)

text \<open>
  Claim C8, as amended. The builder is a function of its five arguments alone (it takes
  and returns no state), so equal inputs give the same SQL string. A single scalar
  station or parameter that passes the emptiness check of lines 76 to 79 (a string that
  is not empty, a number that is not zero) gives exactly the result of the one-element
  list holding it, and a string is one list element: it is put between quotes whole,
  never split into its characters.
\<close>

theorem scalar_equals_singleton:
  assumes "truthy (One a)" and "truthy (One b)"
  shows "create_lv_meteo_data_sql table (One a) parameters startdate enddate
           = create_lv_meteo_data_sql table (Many [a]) parameters startdate enddate
       \<and> create_lv_meteo_data_sql table stations (One b) startdate enddate
           = create_lv_meteo_data_sql table stations (Many [b]) startdate enddate
       \<and> create_lv_meteo_data_sql table (One a) (One b) startdate enddate
           = create_lv_meteo_data_sql table (Many [a]) (Many [b]) startdate enddate
       \<and> quoted_list (normalize_arg (One (PStr str))) = [sq] @ str @ [sq]
       \<and> (\<forall>q1 q2. create_lv_meteo_data_sql table stations parameters startdate enddate = Inr q1
             \<and> create_lv_meteo_data_sql table stations parameters startdate enddate = Inr q2
             \<longrightarrow> q1 = q2)"
proof -
  have "create_lv_meteo_data_sql table (One a) (One b) startdate enddate
           = create_lv_meteo_data_sql table (Many [a]) (Many [b]) startdate enddate"
    using scalar_station [OF assms(1)] scalar_parameter [OF assms(2)] by simp
  moreover have "quoted_list (normalize_arg (One (PStr str))) = [sq] @ str @ [sq]"
    by (simp add: quoted_list_def)
  moreover have "\<forall>q1 q2. create_lv_meteo_data_sql table stations parameters startdate enddate = Inr q1
             \<and> create_lv_meteo_data_sql table stations parameters startdate enddate = Inr q2
             \<longrightarrow> q1 = q2"
    by auto
  ultimately show ?thesis
    using scalar_station [OF assms(1)] scalar_parameter [OF assms(2)] by blast
qed

theorem scalar_equals_singleton_witness:
  "truthy (One (PStr ''RIGASLU'')) \<and> truthy (One (PStr ''HTDRY''))
   \<and> create_lv_meteo_data_sql ''T1'' (One (PStr ''RIGASLU'')) (One (PStr ''HTDRY''))
        (PyDatetime (midnight 2024 2 3)) (PyDatetime (midnight 2024 2 4))
      = create_lv_meteo_data_sql ''T1'' (Many [PStr ''RIGASLU'']) (Many [PStr ''HTDRY''])
        (PyDatetime (midnight 2024 2 3)) (PyDatetime (midnight 2024 2 4))
   \<and> quoted_list (normalize_arg (One (PStr ''RIGASLU''))) = [sq] @ ''RIGASLU'' @ [sq]"
  using scalar_equals_singleton [of "PStr ''RIGASLU''" "PStr ''HTDRY''" "''T1''" "Many []" "PyDatetime (midnight 2024 2 3)" "PyDatetime (midnight 2024 2 4)" "Many []" "''RIGASLU''"]
  by simp

text \<open>
  Claim C8 as stated fails for the empty string: as a scalar station it is rejected by
  line 76 with \<^verbatim>\<open>ValidationError\<close>, while the one-element list holding it passes and
  gives a SQL string with the list \<^verbatim>\<open>('')\<close>.
\<close>

theorem empty_scalar_differs_from_singleton:
  "create_lv_meteo_data_sql ''T1'' (One (PStr [])) (Many [PStr ''P1''])
       (PyDatetime (midnight 2024 2 3)) (PyDatetime (midnight 2024 2 4))
     = Inl (Exn ValidationError ''Stations list cannot be empty'' None)
   \<and> create_lv_meteo_data_sql ''T1'' (Many [PStr []]) (Many [PStr ''P1''])
       (PyDatetime (midnight 2024 2 3)) (PyDatetime (midnight 2024 2 4))
     = Inr (''SELECT * from '' @ [dq] @ ''T1'' @ [dq] @ '' WHERE '' @ [dq] @ ''STATION_ID'' @ [dq]
        @ '' in ('' @ [sq, sq] @ '') and ''
        @ [dq] @ ''ABBREVIATION'' @ [dq] @ '' in ('' @ [sq] @ ''P1'' @ [sq] @ '') and ''
        @ [dq] @ ''DATETIME'' @ [dq] @ '' BETWEEN '' @ [sq] @ ''2024-02-03T00:00:00'' @ [sq]
        @ '' and '' @ [sq] @ ''2024-02-04T00:00:00'' @ [sq])"
proof -
  have "datetime_ge (midnight 2024 2 3) (midnight 2024 2 4) = Inr False"
    using datetime_lt_next_day by (auto simp: datetime_lt_def split: sum.splits)
  then show ?thesis
    by (simp add: create_lv_meteo_data_sql_def base_sql_def quoted_list_def
        isoformat_day_3 isoformat_day_4)
qed

section \<open>Properties of the transport and of the public operations\<close>

lemma py_iter_other: "py_iter x = Inl e \<Longrightarrow> \<exists>n. exn_class_of e = OtherException n"
  by (cases x) auto

lemma py_get_other: "py_get x k d = Inl e \<Longrightarrow> \<exists>n. exn_class_of e = OtherException n"
  by (cases x) auto

lemma py_subscript_other: "py_subscript x k = Inl e \<Longrightarrow> \<exists>n. exn_class_of e = OtherException n"
  by (cases x) (auto split: option.splits)

lemma py_len_other: "py_len x = Inl e \<Longrightarrow> \<exists>n. exn_class_of e = OtherException n"
  by (cases x) auto

lemma select_row_other:
  "select_row cs v = Inl e \<Longrightarrow> \<exists>n. exn_class_of e = OtherException n"
  by (induction cs arbitrary: e) (auto split: sum.splits dest: py_get_other)

lemma select_rows_other:
  "select_rows cs vs = Inl e \<Longrightarrow> \<exists>n. exn_class_of e = OtherException n"
  by (induction vs arbitrary: e) (auto split: sum.splits dest: select_row_other)

lemma field_dict_of_other:
  "field_dict_of fs acc = Inl e \<Longrightarrow> \<exists>n. exn_class_of e = OtherException n"
  by (induction fs arbitrary: acc e)
     (auto split: sum.splits json.splits dest: py_subscript_other)

lemma convert_column_coerce:
  "convert_column parse sentinel ErrorsCoerce col = Inr (map (parse_or parse sentinel) col)"
  by (simp add: convert_column_def)

lemma coerce_column_total: "coerce_column pd vtype col = Inr (coerced_column pd vtype col)"
  by (simp add: coerce_column_def coerced_column_def to_numeric_def to_datetime_def
      convert_column_coerce)

lemma coerce_columns_total:
  "coerce_columns pd fd cols
     = Inr (map (\<lambda>(c, col). (c, coerced_column pd (vtype_of fd c) col)) cols)"
  by (induction cols) (auto simp: coerce_column_total)

lemma build_frame_some_other:
  "build_frame pd records (Some cs) = Inl e \<Longrightarrow> \<exists>n. exn_class_of e = OtherException n"
  by (auto simp: build_frame_def split: sum.splits dest: py_iter_other select_rows_other)

lemma raw_some_other:
  "records_to_dataframe_raw pd flds records (Some cs) = Inl e
     \<Longrightarrow> \<exists>n. exn_class_of e = OtherException n"
  by (auto simp: records_to_dataframe_raw_def coerce_columns_total split: sum.splits
      dest: py_iter_other field_dict_of_other build_frame_some_other)

lemma records_to_dataframe_other:
  "records_to_dataframe pd cd flds records = Inl e \<Longrightarrow> \<exists>n. exn_class_of e = OtherException n"
  by (auto simp: records_to_dataframe_def split: sum.splits dest: raw_some_other)

lemma set_index_other:
  "set_index c df = Inl e \<Longrightarrow> \<exists>n. exn_class_of e = OtherException n"
  by (auto simp: set_index_def split: option.splits)

lemma index_step_other:
  "index_step ic df = Inl e \<Longrightarrow> \<exists>n. exn_class_of e = OtherException n"
  by (auto simp: index_step_def split: option.splits if_splits dest: set_index_other)

lemma fromsql_fieldmap_not_validation:
  "fromsql_of_response w pd data (Some fm) ic = Inl e \<Longrightarrow> exn_class_of e \<noteq> ValidationError"
  unfolding fromsql_of_response_def
  by (auto split: sum.splits if_splits
      dest!: py_get_other py_len_other py_subscript_other records_to_dataframe_other index_step_other)

lemma reraise_not_validation:
  "exn_class_of e \<noteq> ValidationError \<Longrightarrow> exn_class_of (reraise_or_wrap p e) \<noteq> ValidationError"
  by (cases "(p, e)" rule: reraise_or_wrap.cases) simp_all

lemma transport_except_class: "exn_class_of (transport_except e) = APIError"
  by (cases e rule: transport_except.cases) simp_all

lemma table_sql_nonempty: "table_sql table \<noteq> []"
  by (simp add: table_sql_def)

lemma table_sql_empty: "table_sql [] = ''SELECT * from '' @ [dq, dq] @ '' ''"
  by (simp add: table_sql_def)

lemma get_response_shape:
  assumes "sql \<noteq> []"
  shows "\<exists>r. get_response_from_lv_data w sql use_curl curlExePath calls
     = (r, calls @ [if use_curl
                then CheckOutput [curlExePath, ''-G'', ''--data-urlencode'', ''sql='' @ sql, API_BASE_URL] 400
                else HttpGet API_BASE_URL [(''sql'', sql)] DEFAULT_TIMEOUT])
     \<and> (\<forall>e. r = Inl e \<longrightarrow> exn_class_of e = APIError)"
  using assms
  by (auto simp: get_response_from_lv_data_def transport_try_def Let_def transport_except_class
      split: sum.splits prod.splits)

text \<open>
  Claim C10. For every table identifier, the empty one included, the SQL that \<open>get_table\<close>
  builds is not empty; the call therefore passes the transport's empty-SQL check, exactly
  one request is added to the list of calls, and whatever \<open>get_table\<close> raises is not a
  \<^verbatim>\<open>ValidationError\<close>.
\<close>

theorem get_table_reaches_network:
  "table_sql table \<noteq> []
   \<and> table_sql [] = ''SELECT * from '' @ [dq, dq] @ '' ''
   \<and> (\<exists>r. get_table w pd table fieldmap index_col use_curl curlExePath calls
        = (r, calls @ [if use_curl
              then CheckOutput [curlExePath, ''-G'', ''--data-urlencode'',
                     ''sql='' @ table_sql table, API_BASE_URL] 400
              else HttpGet API_BASE_URL [(''sql'', table_sql table)] DEFAULT_TIMEOUT])
      \<and> (\<forall>m c. r \<noteq> Inl (Exn ValidationError m c)))"
proof -
  obtain r0 where r0: "get_response_from_lv_data w (table_sql table) use_curl curlExePath calls
     = (r0, calls @ [if use_curl
                then CheckOutput [curlExePath, ''-G'', ''--data-urlencode'', ''sql='' @ table_sql table, API_BASE_URL] 400
                else HttpGet API_BASE_URL [(''sql'', table_sql table)] DEFAULT_TIMEOUT])"
    and cls: "\<And>e. r0 = Inl e \<Longrightarrow> exn_class_of e = APIError"
    using get_response_shape [OF table_sql_nonempty] by blast
  show ?thesis
  proof (cases r0)
    case (Inl e)
    with cls have "exn_class_of e = APIError" by simp
    then have "exn_class_of (reraise_or_wrap p e) \<noteq> ValidationError" for p
      by (simp add: reraise_not_validation)
    then have "\<forall>m c. reraise_or_wrap p e \<noteq> Exn ValidationError m c" for p
      by (metis exn_class_of.simps)
    with Inl r0 show ?thesis
      by (simp add: get_table_def get_fromsql_def table_sql_nonempty table_sql_empty)
  next
    case (Inr data)
    show ?thesis
    proof (cases "fromsql_of_response w pd data (Some fieldmap) index_col")
      case (Inl e)
      then have "exn_class_of (reraise_or_wrap p e) \<noteq> ValidationError" for p
        by (simp add: reraise_not_validation fromsql_fieldmap_not_validation)
      then have "\<forall>m c. reraise_or_wrap p e \<noteq> Exn ValidationError m c" for p
        by (metis exn_class_of.simps)
      with Inl Inr r0 show ?thesis
        by (simp add: get_table_def get_fromsql_def table_sql_nonempty table_sql_empty)
    next
      case (Inr df)
      with \<open>r0 = Inr data\<close> r0 show ?thesis
        by (simp add: get_table_def get_fromsql_def table_sql_nonempty table_sql_empty)
    qed
  qed
qed

text \<open>
  The handlers. \<open>get_lv_meteo_data\<close> and \<open>get_fromsql\<close> pass the package's three classes
  on as they are and wrap any other exception once, keeping it as the cause. The handler
  of \<open>get_response_from_lv_data\<close> wraps every exception, whatever its class.
\<close>

lemma package_errors_pass:
  "exn_class_of e \<in> {ValidationError, APIError, DataNotFoundError} \<Longrightarrow> reraise_or_wrap p e = e"
  by (cases "(p, e)" rule: reraise_or_wrap.cases) simp_all

lemma other_errors_wrapped:
  "exn_class_of e \<notin> {ValidationError, APIError, DataNotFoundError}
     \<Longrightarrow> reraise_or_wrap p e = Exn APIError (p @ exn_str e) (Some e)"
  by (cases "(p, e)" rule: reraise_or_wrap.cases) simp_all

lemma transport_wraps_every_exception:
  "\<exists>m. transport_except e = Exn APIError m (Some e)"
  by (cases e rule: transport_except.cases) simp_all

text \<open>
  Claim C3 at an input where the code departs from it: the server answers with status
  500. Line 158 raises an \<^verbatim>\<open>APIError\<close> inside the \<^verbatim>\<open>try\<close> block, and the clause
  \<^verbatim>\<open>except Exception\<close> of line 168 catches it and raises a second \<^verbatim>\<open>APIError\<close> around
  it. The caller receives the wrapped one.
\<close>

theorem http_error_status_is_wrapped_again:
  "get_response_from_lv_data
     (network_answering \<lparr>status_code = 500, resp_text = ''Internal Server Error'', resp_json = Inr JNull\<rparr>)
     ''SELECT 1'' False ''curl'' []
   = (Inl (Exn APIError
            ''Unexpected error during API request: API request failed with status 500: Internal Server Error''
            (Some (Exn APIError ''API request failed with status 500: Internal Server Error'' None))),
      [HttpGet API_BASE_URL [(''sql'', ''SELECT 1'')] DEFAULT_TIMEOUT])"
  by code_simp

text \<open>
  Claim C9. When the typed table has no rows or has no column \<^verbatim>\<open>date\<close>, the reshaping of
  lines 283 to 286 is not run and the table is returned as it is.
\<close>

theorem reshape_skipped:
  "index_len (df_index df) = 0 \<or> ''date'' \<notin> set (column_labels df) \<Longrightarrow> reshape_step pd df = Inr df"
  by (auto simp: reshape_step_def df_empty_def)

theorem reshape_skipped_witness:
  "(index_len (df_index \<lparr>df_index = RangeIndex 0, df_columns = [(''date'', []), (''value'', [])]\<rparr>) = 0
    \<or> ''date'' \<notin> set (column_labels \<lparr>df_index = RangeIndex 0, df_columns = [(''date'', []), (''value'', [])]\<rparr>))
   \<and> reshape_step pandas_through_2 \<lparr>df_index = RangeIndex 0, df_columns = [(''date'', []), (''value'', [])]\<rparr>
       = Inr \<lparr>df_index = RangeIndex 0, df_columns = [(''date'', []), (''value'', [])]\<rparr>
   \<and> (index_len (df_index \<lparr>df_index = RangeIndex 1, df_columns = [(''value'', [CInt 5])]\<rparr>) = 0
    \<or> ''date'' \<notin> set (column_labels \<lparr>df_index = RangeIndex 1, df_columns = [(''value'', [CInt 5])]\<rparr>))
   \<and> reshape_step pandas_through_2 \<lparr>df_index = RangeIndex 1, df_columns = [(''value'', [CInt 5])]\<rparr>
       = Inr \<lparr>df_index = RangeIndex 1, df_columns = [(''value'', [CInt 5])]\<rparr>"
  using reshape_skipped [of "\<lparr>df_index = RangeIndex 0, df_columns = [(''date'', []), (''value'', [])]\<rparr>" pandas_through_2]
    reshape_skipped [of "\<lparr>df_index = RangeIndex 1, df_columns = [(''value'', [CInt 5])]\<rparr>" pandas_through_2]
  by (simp add: column_labels_def)

text \<open>
  Inside \<open>get_lv_meteo_data\<close> the guard never skips: the table that
  \<open>records_to_dataframe\<close> builds from a record list that is not empty, with the field map
  \<open>DATA_COLUMNS\<close>, always has the column \<^verbatim>\<open>date\<close> and at least one row.
\<close>

lemma select_row_keys: "select_row cs v = Inr r \<Longrightarrow> map fst r = cs"
  by (induction cs arbitrary: r) (auto split: sum.splits)

lemma select_rows_keys:
  "select_rows cs vs = Inr rows \<Longrightarrow> length rows = length vs \<and> (\<forall>r \<in> set rows. map fst r = cs)"
  by (induction vs arbitrary: rows) (auto split: sum.splits dest: select_row_keys)

lemma uniq_set: "set (uniq xs) = set xs"
  by (simp add: uniq_def)

lemma py_iter_truthy: "json_truthy x \<Longrightarrow> py_iter x = Inr vs \<Longrightarrow> vs \<noteq> []"
  by (cases x) auto

lemma frame_labels:
  assumes "rows \<noteq> []" and "\<forall>r \<in> set rows. map fst r = cs"
  shows "set (column_labels (frame_of_rows pd rows)) = set cs"
proof -
  have "set (concat (map (map fst) rows)) = set cs"
    using assms by (cases rows) auto
  then show ?thesis
    by (simp add: column_labels_def frame_of_rows_def uniq_set comp_def)
qed

lemma coerce_keeps_labels:
  "map fst (map (\<lambda>(c, col). (c, coerced_column pd (vtype_of fd c) col)) cols) = map fst cols"
  by (induction cols) auto

lemma meteo_table_has_date_and_rows:
  assumes "json_truthy records"
    and "records_to_dataframe pd DATA_COLUMNS flds records = Inr df"
  shows "''date'' \<in> set (column_labels df) \<and> \<not> df_empty df"
proof -
  from assms(2) obtain raw where
    raw: "records_to_dataframe_raw pd flds records (Some (map snd DATA_COLUMNS)) = Inr raw"
    and df: "df = rename_columns (inv_dict DATA_COLUMNS) raw"
    by (auto simp: records_to_dataframe_def split: sum.splits)
  from raw obtain fd df0 where
    df0: "build_frame pd records (Some (map snd DATA_COLUMNS)) = Inr df0"
    and r: "raw = df0\<lparr>df_columns :=
               map (\<lambda>(c, col). (c, coerced_column pd (vtype_of fd c) col)) (df_columns df0)\<rparr>"
    by (auto simp: records_to_dataframe_raw_def coerce_columns_total split: sum.splits)
  from df0 obtain vs rows where
    vs: "py_iter records = Inr vs"
    and rows: "select_rows (map snd DATA_COLUMNS) vs = Inr rows"
    and f: "df0 = frame_of_rows pd rows"
    by (auto simp: build_frame_def split: sum.splits)
  from py_iter_truthy [OF assms(1) vs] have "vs \<noteq> []" .
  with select_rows_keys [OF rows] have ne: "rows \<noteq> []"
    and keys: "\<forall>r \<in> set rows. map fst r = map snd DATA_COLUMNS"
    by auto
  from frame_labels [OF ne keys] f have
    "''DATETIME'' \<in> set (column_labels df0)"
    by (simp add: DATA_COLUMNS_def)
  then have "''DATETIME'' \<in> fst ` set (df_columns raw)"
    using r by (force simp: column_labels_def)
  then obtain col where "(''DATETIME'', col) \<in> set (df_columns raw)" by auto
  moreover have "inv_dict DATA_COLUMNS ''DATETIME'' = Some ''date''"
    by (simp add: inv_dict_def DATA_COLUMNS_def)
  ultimately have "''date'' \<in> set (column_labels df)"
    using df by (force simp: rename_columns_def column_labels_def)
  moreover have "df_columns df \<noteq> []"
    using \<open>(''DATETIME'', col) \<in> set (df_columns raw)\<close> df
    by (auto simp: rename_columns_def)
  moreover have "index_len (df_index df) = length rows"
    using df r f by (simp add: rename_columns_def frame_of_rows_def)
  ultimately show ?thesis using ne by (simp add: df_empty_def)
qed

lemma create_sql_sample:
  "create_lv_meteo_data_sql ''T1'' (Many [PStr ''A'']) (Many [PStr ''P1''])
     (PyDatetime (midnight 2024 2 3)) (PyDatetime (midnight 2024 2 4)) = Inr
     (base_sql ''T1'' ([sq] @ ''A'' @ [sq]) ([sq] @ ''P1'' @ [sq]) ''2024-02-03T00:00:00'' ''2024-02-04T00:00:00'')"
  using datetime_lt_next_day
  by (simp add: create_lv_meteo_data_sql_def datetime_lt_def quoted_list_def isoformat_day_3 isoformat_day_4 split: sum.splits)

lemma base_sql_nonempty: "base_sql t a b c d \<noteq> []"
  by (simp add: base_sql_def)

lemma transport_answers:
  "sql \<noteq> [] \<Longrightarrow> get_response_from_lv_data (network_answering (ok_response data)) sql False curl calls
     = (Inr data, calls @ [HttpGet API_BASE_URL [(''sql'', sql)] DEFAULT_TIMEOUT])"
  by (simp add: get_response_from_lv_data_def transport_try_def network_answering_def ok_response_def ok_def)

text \<open>
  Claim C2. Let the transport return an envelope whose \<^verbatim>\<open>success\<close> is true. If the
  result object is there and its record list is empty, \<open>get_lv_meteo_data\<close> and
  \<open>get_fromsql\<close> return the empty table and raise nothing; if the envelope has no result,
  both raise \<^verbatim>\<open>DataNotFoundError\<close>.
\<close>

theorem empty_records_and_absent_result:
  assumes "create_lv_meteo_data_sql table stations parameters startdate enddate = Inr sql"
    and "get_response_from_lv_data w sql use_curl curl_exe_path calls = (Inr (JDict kvs), calls')"
    and "get_response_from_lv_data w sql2 use_curl2 curlExePath calls2 = (Inr (JDict kvs), calls2')"
    and "map_of kvs ''success'' = Some success" and "json_truthy success"
  shows "(map_of kvs ''result'' = Some (JDict res) \<and> map_of res ''records'' = Some (JList [])
            \<longrightarrow> get_lv_meteo_data w pd table stations parameters startdate enddate
                  use_curl curl_exe_path calls = (Inr empty_frame, calls')
              \<and> get_fromsql w pd sql2 fieldmap index_col use_curl2 curlExePath calls2
                  = (Inr empty_frame, calls2'))
       \<and> (map_of kvs ''result'' = None
            \<longrightarrow> get_lv_meteo_data w pd table stations parameters startdate enddate
                  use_curl curl_exe_path calls
                  = (Inl (Exn DataNotFoundError ''No result data returned from API'' None), calls')
              \<and> get_fromsql w pd sql2 fieldmap index_col use_curl2 curlExePath calls2
                  = (Inl (Exn DataNotFoundError ''No result data returned from SQL query'' None),
                     calls2'))"
proof (intro conjI impI)
  assume r: "map_of kvs ''result'' = Some (JDict res) \<and> map_of res ''records'' = Some (JList [])"
  then have "res \<noteq> []" by auto
  with r assms(4,5) have "meteo_data_of_response w pd (JDict kvs) = Inr empty_frame"
    by (simp add: meteo_data_of_response_def)
  with assms(1,2) show "get_lv_meteo_data w pd table stations parameters startdate enddate
                  use_curl curl_exe_path calls = (Inr empty_frame, calls')"
    by (simp add: get_lv_meteo_data_def)
  from r \<open>res \<noteq> []\<close> assms(4,5)
  have "fromsql_of_response w pd (JDict kvs) fieldmap index_col = Inr empty_frame"
    by (simp add: fromsql_of_response_def)
  with assms(3) show "get_fromsql w pd sql2 fieldmap index_col use_curl2 curlExePath calls2
                  = (Inr empty_frame, calls2')"
    by (simp add: get_fromsql_def)
next
  assume r: "map_of kvs ''result'' = None"
  with assms(4,5) have "meteo_data_of_response w pd (JDict kvs)
      = Inl (Exn DataNotFoundError ''No result data returned from API'' None)"
    by (simp add: meteo_data_of_response_def)
  with assms(1,2) show "get_lv_meteo_data w pd table stations parameters startdate enddate
                  use_curl curl_exe_path calls
                  = (Inl (Exn DataNotFoundError ''No result data returned from API'' None), calls')"
    by (simp add: get_lv_meteo_data_def)
  from r assms(4,5) have "fromsql_of_response w pd (JDict kvs) fieldmap index_col
      = Inl (Exn DataNotFoundError ''No result data returned from SQL query'' None)"
    by (simp add: fromsql_of_response_def)
  with assms(3) show "get_fromsql w pd sql2 fieldmap index_col use_curl2 curlExePath calls2
                  = (Inl (Exn DataNotFoundError ''No result data returned from SQL query'' None),
                     calls2')"
    by (simp add: get_fromsql_def)
qed

theorem empty_records_and_absent_result_witness:
  "get_lv_meteo_data (network_answering (ok_response (JDict envelope_empty))) pandas_through_2
      ''T1'' (Many [PStr ''A'']) (Many [PStr ''P1''])
      (PyDatetime (midnight 2024 2 3)) (PyDatetime (midnight 2024 2 4)) False ''curl'' []
     = (Inr empty_frame,
        [HttpGet API_BASE_URL
           [(''sql'', base_sql ''T1'' ([sq] @ ''A'' @ [sq]) ([sq] @ ''P1'' @ [sq])
                        ''2024-02-03T00:00:00'' ''2024-02-04T00:00:00'')] DEFAULT_TIMEOUT])
   \<and> get_fromsql (network_answering (ok_response (JDict envelope_empty))) pandas_through_2
      ''SELECT 1'' None None False ''curl'' []
     = (Inr empty_frame, [HttpGet API_BASE_URL [(''sql'', ''SELECT 1'')] DEFAULT_TIMEOUT])
   \<and> get_lv_meteo_data (network_answering (ok_response (JDict envelope_no_result))) pandas_through_2
      ''T1'' (Many [PStr ''A'']) (Many [PStr ''P1''])
      (PyDatetime (midnight 2024 2 3)) (PyDatetime (midnight 2024 2 4)) False ''curl'' []
     = (Inl (Exn DataNotFoundError ''No result data returned from API'' None),
        [HttpGet API_BASE_URL
           [(''sql'', base_sql ''T1'' ([sq] @ ''A'' @ [sq]) ([sq] @ ''P1'' @ [sq])
                        ''2024-02-03T00:00:00'' ''2024-02-04T00:00:00'')] DEFAULT_TIMEOUT])
   \<and> get_fromsql (network_answering (ok_response (JDict envelope_no_result))) pandas_through_2
      ''SELECT 1'' None None False ''curl'' []
     = (Inl (Exn DataNotFoundError ''No result data returned from SQL query'' None),
        [HttpGet API_BASE_URL [(''sql'', ''SELECT 1'')] DEFAULT_TIMEOUT])"
proof -
  have s1: "''SELECT 1'' \<noteq> []" by simp
  note a = empty_records_and_absent_result [where kvs = envelope_empty and success = "JBool True"
      and res = "[(''fields'', JList []), (''records'', JList [])]"
      and pd = pandas_through_2 and fieldmap = None and index_col = None,
      OF create_sql_sample transport_answers [OF base_sql_nonempty] transport_answers [OF s1]]
  note b = empty_records_and_absent_result [where kvs = envelope_no_result and success = "JBool True"
      and res = "[]" and pd = pandas_through_2 and fieldmap = None and index_col = None,
      OF create_sql_sample transport_answers [OF base_sql_nonempty] transport_answers [OF s1]]
  from a b show ?thesis
    by (simp add: envelope_empty_def envelope_no_result_def)
qed

section \<open>Properties of the response normalizer\<close>

lemma pandas_through_2_fields:
  "infer_column pandas_through_2 = infer_float_column"
  "astype_keeps_na pandas_through_2 = False"
  "repr_cell pandas_through_2 = example_repr"
  "parse_numeric pandas_through_2 (CStr x) = None"
  "parse_datetime pandas_through_2 c = None"
  by (simp_all add: pandas_through_2_def)

lemma raw_result:
  assumes "py_iter flds = Inr fs" and "field_dict_of fs Map.empty = Inr fd"
    and "build_frame pd records columns = Inr df0"
  shows "records_to_dataframe_raw pd flds records columns
     = Inr (df0\<lparr>df_columns :=
               map (\<lambda>(c, col). (c, coerced_column pd (vtype_of fd c) col)) (df_columns df0)\<rparr>)"
  using assms by (simp add: records_to_dataframe_raw_def coerce_columns_total)

lemma raw_result_nth:
  assumes "py_iter flds = Inr fs" and "field_dict_of fs Map.empty = Inr fd"
    and "build_frame pd records columns = Inr df0"
    and "i < length (df_columns df0)" and "df_columns df0 ! i = (c, col)"
  shows "\<exists>df. records_to_dataframe_raw pd flds records columns = Inr df
           \<and> df_index df = df_index df0
           \<and> length (df_columns df) = length (df_columns df0)
           \<and> df_columns df ! i = (c, coerced_column pd (vtype_of fd c) col)"
  using assms by (simp add: raw_result)

lemma astype_str_nth:
  "j < length col \<Longrightarrow>
   astype_str pd col ! j
     = (if astype_keeps_na pd \<and> is_na (col ! j) then CNaN else CStr (cell_str pd (col ! j)))"
  by (simp add: astype_str_def)

lemma name_frame:
  "build_frame pandas_through_2 name_records (Some [''NAME''])
     = Inr \<lparr>df_index = RangeIndex 2, df_columns = [(''NAME'', [CStr ''Riga'', CNone])]\<rparr>"
  by (simp add: build_frame_def name_records_def frame_of_rows_def uniq_def
      pandas_through_2_fields infer_float_column_def)

lemma a_frame:
  "build_frame pandas_through_2 a_records None
     = Inr \<lparr>df_index = RangeIndex 1, df_columns = [(''a'', [CInt 5])]\<rparr>"
  by (simp add: build_frame_def a_records_def frame_of_rows_def uniq_def
      pandas_through_2_fields infer_float_column_def)

lemma str_int_5: "str_int 5 = ''5''"
  by code_simp

lemma field_dict_of_ok:
  "list_all field_ok fs \<Longrightarrow> \<exists>fd. field_dict_of fs acc = Inr fd"
proof (induction fs arbitrary: acc)
  case Nil
  then show ?case by simp
next
  case (Cons v vs)
  then have ok: "field_ok v" and rest: "list_all field_ok vs" by simp_all
  from ok obtain kvs k t where v: "v = JDict kvs" "map_of kvs ''id'' = Some k"
      "map_of kvs ''type'' = Some t" "\<not> is_dict k" "\<forall>xs. k \<noteq> JList xs"
    by (cases v) (auto split: option.splits json.splits)
  from Cons.IH [OF rest] v show ?case
    by (cases k) auto
qed

lemma select_row_ok: "is_dict v \<Longrightarrow> \<exists>r. select_row cs v = Inr r"
proof (induction cs)
  case Nil
  then show ?case by simp
next
  case (Cons k ks)
  then obtain r where "select_row ks v = Inr r" by blast
  with Cons.prems show ?case by (cases v) auto
qed

lemma select_rows_ok: "list_all is_dict vs \<Longrightarrow> \<exists>rs. select_rows cs vs = Inr rs"
proof (induction vs)
  case Nil
  then show ?case by simp
next
  case (Cons v vs)
  then obtain rs where "select_rows cs vs = Inr rs" by auto
  moreover from Cons.prems obtain r where "select_row cs v = Inr r"
    using select_row_ok by auto
  ultimately show ?case by simp
qed

lemma build_frame_ok:
  "list_all is_dict vs \<Longrightarrow> \<exists>df0. build_frame pd (JList vs) columns = Inr df0"
proof (cases columns)
  case None
  assume "list_all is_dict vs"
  with None show ?thesis by (simp add: build_frame_def)
next
  case (Some cs)
  assume "list_all is_dict vs"
  then obtain rs where "select_rows cs vs = Inr rs" using select_rows_ok by blast
  with Some show ?thesis by (simp add: build_frame_def)
qed

lemma junk_frame:
  "build_frame pandas_through_2 (JList junk_records) None
     = Inr \<lparr>df_index = RangeIndex 1,
            df_columns = [(''VALUE'', [CStr ''abc'']), (''DATETIME'', [CStr ''junk''])]\<rparr>"
  by (simp add: build_frame_def junk_records_def frame_of_rows_def uniq_def
      pandas_through_2_fields infer_float_column_def)

lemma typed_field_dict:
  "field_dict_of typed_fields Map.empty
     = Inr [''VALUE'' \<mapsto> JStr ''numeric'', ''DATETIME'' \<mapsto> JStr ''timestamp'']"
  by (simp add: typed_fields_def)

text \<open>
  Claim C4, as amended. A column whose declared type is \<^verbatim>\<open>text\<close> is replaced by the
  result of \<^verbatim>\<open>astype('str')\<close> on the whole column; the code does nothing else to its
  cells. Each cell that is not null becomes the text of its value, the value being the
  one the table stores after pandas has inferred the column's dtype. A null cell stays
  missing only under a pandas whose \<^verbatim>\<open>astype('str')\<close> keeps missing values; under the
  others it becomes a text too (\<^verbatim>\<open>'None'\<close> for \<^verbatim>\<open>None\<close>), which is no longer null.
\<close>

theorem text_column_through_astype_str:
  assumes "py_iter flds = Inr fs" and "field_dict_of fs Map.empty = Inr fd"
    and "build_frame pd records columns = Inr df0"
    and "i < length (df_columns df0)" and "df_columns df0 ! i = (c, col)"
    and "fd c = Some (JStr ''text'')"
  shows "\<exists>df col'. records_to_dataframe_raw pd flds records columns = Inr df
           \<and> df_columns df ! i = (c, col') \<and> length col' = length col
           \<and> (\<forall>j < length col.
                 (\<not> is_na (col ! j) \<longrightarrow> col' ! j = CStr (cell_str pd (col ! j)))
               \<and> (is_na (col ! j) \<and> astype_keeps_na pd \<longrightarrow> col' ! j = CNaN)
               \<and> (is_na (col ! j) \<and> \<not> astype_keeps_na pd
                     \<longrightarrow> col' ! j = CStr (cell_str pd (col ! j)) \<and> \<not> is_na (col' ! j)))"
proof -
  from assms(6) have "coerced_column pd (vtype_of fd c) col = astype_str pd col"
    by (simp add: coerced_column_def vtype_of_def)
  with raw_result_nth [OF assms(1-5)] obtain df where
    df: "records_to_dataframe_raw pd flds records columns = Inr df"
      "df_columns df ! i = (c, astype_str pd col)"
    by auto
  have "length (astype_str pd col) = length col" by (simp add: astype_str_def)
  moreover have "\<forall>j < length col.
                 (\<not> is_na (col ! j) \<longrightarrow> astype_str pd col ! j = CStr (cell_str pd (col ! j)))
               \<and> (is_na (col ! j) \<and> astype_keeps_na pd \<longrightarrow> astype_str pd col ! j = CNaN)
               \<and> (is_na (col ! j) \<and> \<not> astype_keeps_na pd
                     \<longrightarrow> astype_str pd col ! j = CStr (cell_str pd (col ! j))
                         \<and> \<not> is_na (astype_str pd col ! j))"
    by (simp add: astype_str_nth)
  ultimately show ?thesis using df by blast
qed

theorem text_column_through_astype_str_witness:
  "\<exists>df col'. records_to_dataframe_raw pandas_through_2 text_fields name_records (Some [''NAME'']) = Inr df
           \<and> df_columns df ! 0 = (''NAME'', col') \<and> length col' = 2
           \<and> col' ! 0 = CStr ''Riga'' \<and> col' ! 1 = CStr ''None''"
proof -
  have f: "py_iter text_fields = Inr [JDict [(''id'', JStr ''NAME''), (''type'', JStr ''text'')]]"
    by (simp add: text_fields_def)
  have d: "field_dict_of [JDict [(''id'', JStr ''NAME''), (''type'', JStr ''text'')]] Map.empty
             = Inr [''NAME'' \<mapsto> JStr ''text'']"
    by simp
  have i: "0 < length (df_columns \<lparr>df_index = RangeIndex 2, df_columns = [(''NAME'', [CStr ''Riga'', CNone])]\<rparr>)"
    by simp
  have n: "df_columns \<lparr>df_index = RangeIndex 2, df_columns = [(''NAME'', [CStr ''Riga'', CNone])]\<rparr> ! 0
             = (''NAME'', [CStr ''Riga'', CNone])"
    by simp
  have t: "[''NAME'' \<mapsto> JStr ''text''] ''NAME'' = Some (JStr ''text'')" by simp
  from text_column_through_astype_str [OF f d name_frame i n t]
  obtain df col' where
    r: "records_to_dataframe_raw pandas_through_2 text_fields name_records (Some [''NAME'']) = Inr df"
       "df_columns df ! 0 = (''NAME'', col')" "length col' = length [CStr ''Riga'', CNone]"
    and c: "\<forall>j < length [CStr ''Riga'', CNone].
                 (\<not> is_na ([CStr ''Riga'', CNone] ! j) \<longrightarrow> col' ! j = CStr (cell_str pandas_through_2 ([CStr ''Riga'', CNone] ! j)))
               \<and> (is_na ([CStr ''Riga'', CNone] ! j) \<and> astype_keeps_na pandas_through_2 \<longrightarrow> col' ! j = CNaN)
               \<and> (is_na ([CStr ''Riga'', CNone] ! j) \<and> \<not> astype_keeps_na pandas_through_2
                     \<longrightarrow> col' ! j = CStr (cell_str pandas_through_2 ([CStr ''Riga'', CNone] ! j)) \<and> \<not> is_na (col' ! j))"
    by blast
  from c have "col' ! 0 = CStr ''Riga''" by simp
  moreover from c have "col' ! 1 = CStr ''None''"
    by (simp add: pandas_through_2_fields)
  ultimately show ?thesis using r by auto
qed

text \<open>
  Claim C4 as stated fails with the \<^verbatim>\<open>astype('str')\<close> of pandas 1 and 2: the column
  \<^verbatim>\<open>NAME\<close>, of type text, holds \<^verbatim>\<open>'Riga'\<close> and a null; after the coercion the null
  cell holds the text \<^verbatim>\<open>'None'\<close>.
\<close>

theorem text_column_null_becomes_text:
  "records_to_dataframe_raw pandas_through_2 text_fields name_records (Some [''NAME''])
     = Inr \<lparr>df_index = RangeIndex 2, df_columns = [(''NAME'', [CStr ''Riga'', CStr ''None''])]\<rparr>"
  by (simp add: raw_result [OF _ _ name_frame, where fs = "[JDict [(''id'', JStr ''NAME''), (''type'', JStr ''text'')]]"
        and fd = "[''NAME'' \<mapsto> JStr ''text'']"] text_fields_def coerced_column_def vtype_of_def astype_str_def pandas_through_2_fields)

lemma number_frame:
  "build_frame pandas_through_2 number_records None
     = Inr \<lparr>df_index = RangeIndex 2, df_columns = [(''a'', [CFloat (Finite 1 0), CNaN])]\<rparr>"
  by (simp add: build_frame_def number_records_def frame_of_rows_def uniq_def
      pandas_through_2_fields infer_float_column_def)

lemma str_int_1: "str_int 1 = ''1''"
  by code_simp

text \<open>
  The text is that of the value as the table stores it: with the records
  \<^verbatim>\<open>{"a": 1}\<close> and \<^verbatim>\<open>{"a": null}\<close> the column is stored as floats, and as a text
  column it ends as \<^verbatim>\<open>'1.0'\<close> and \<^verbatim>\<open>'nan'\<close>.
\<close>

lemma text_column_of_numbers_example:
  "records_to_dataframe_raw pandas_through_2 a_text_fields number_records None
     = Inr \<lparr>df_index = RangeIndex 2, df_columns = [(''a'', [CStr ''1.0'', CStr ''nan''])]\<rparr>"
  by (simp add: raw_result [OF _ _ number_frame, where fd = "[''a'' \<mapsto> JStr ''text'']"
          and fs = "[JDict [(''id'', JStr ''a''), (''type'', JStr ''text'')]]"]
        a_text_fields_def coerced_column_def vtype_of_def astype_str_def pandas_through_2_fields
        str_int_1)

text \<open>
  Claim C5, as amended. A column with no field metadata is coerced as a text column is.
  A column whose metadata carries a type tag other than \<^verbatim>\<open>text\<close>, \<^verbatim>\<open>numeric\<close> and
  \<^verbatim>\<open>timestamp\<close> is not coerced at all: it stays as the table was built.
\<close>

theorem unknown_tag_leaves_column:
  assumes "py_iter flds = Inr fs" and "field_dict_of fs Map.empty = Inr fd"
    and "build_frame pd records columns = Inr df0"
    and "i < length (df_columns df0)" and "df_columns df0 ! i = (c, col)"
  shows "\<exists>df. records_to_dataframe_raw pd flds records columns = Inr df
          \<and> (fd c = None \<longrightarrow> df_columns df ! i = (c, astype_str pd col))
          \<and> (fd c = Some (JStr ''text'') \<longrightarrow> df_columns df ! i = (c, astype_str pd col))
          \<and> (\<forall>t. fd c = Some t \<and> t \<noteq> JStr ''text'' \<and> t \<noteq> JStr ''numeric''
                  \<and> t \<noteq> JStr ''timestamp'' \<longrightarrow> df_columns df ! i = (c, col))"
proof -
  from raw_result_nth [OF assms] obtain df where
    df: "records_to_dataframe_raw pd flds records columns = Inr df"
      "df_columns df ! i = (c, coerced_column pd (vtype_of fd c) col)"
    by blast
  have "fd c = None \<Longrightarrow> coerced_column pd (vtype_of fd c) col = astype_str pd col"
    by (simp add: coerced_column_def vtype_of_def)
  moreover have "fd c = Some (JStr ''text'')
      \<Longrightarrow> coerced_column pd (vtype_of fd c) col = astype_str pd col"
    by (simp add: coerced_column_def vtype_of_def)
  moreover have "fd c = Some t \<Longrightarrow> t \<noteq> JStr ''text'' \<Longrightarrow> t \<noteq> JStr ''numeric''
      \<Longrightarrow> t \<noteq> JStr ''timestamp'' \<Longrightarrow> coerced_column pd (vtype_of fd c) col = col" for t
    by (simp add: coerced_column_def vtype_of_def)
  ultimately show ?thesis using df by auto
qed

theorem unknown_tag_leaves_column_witness:
  "(\<exists>df. records_to_dataframe_raw pandas_through_2 int4_fields a_records None = Inr df
         \<and> df_columns df ! 0 = (''a'', [CInt 5]))
   \<and> (\<exists>df. records_to_dataframe_raw pandas_through_2 (JList []) a_records None = Inr df
         \<and> df_columns df ! 0 = (''a'', astype_str pandas_through_2 [CInt 5]))"
proof -
  have i: "0 < length (df_columns \<lparr>df_index = RangeIndex 1, df_columns = [(''a'', [CInt 5])]\<rparr>)"
    by simp
  have n: "df_columns \<lparr>df_index = RangeIndex 1, df_columns = [(''a'', [CInt 5])]\<rparr> ! 0
             = (''a'', [CInt 5])"
    by simp
  have f1: "py_iter int4_fields = Inr [JDict [(''id'', JStr ''a''), (''type'', JStr ''int4'')]]"
    by (simp add: int4_fields_def)
  have d1: "field_dict_of [JDict [(''id'', JStr ''a''), (''type'', JStr ''int4'')]] Map.empty
             = Inr [''a'' \<mapsto> JStr ''int4'']"
    by simp
  have f2: "py_iter (JList []) = Inr []" by simp
  have d2: "field_dict_of [] Map.empty = Inr Map.empty" by simp
  from unknown_tag_leaves_column [OF f1 d1 a_frame i n] have
    "\<exists>df. records_to_dataframe_raw pandas_through_2 int4_fields a_records None = Inr df
         \<and> df_columns df ! 0 = (''a'', [CInt 5])"
    by auto
  moreover from unknown_tag_leaves_column [OF f2 d2 a_frame i n] have
    "\<exists>df. records_to_dataframe_raw pandas_through_2 (JList []) a_records None = Inr df
         \<and> df_columns df ! 0 = (''a'', astype_str pandas_through_2 [CInt 5])"
    by auto
  ultimately show ?thesis by blast
qed

text \<open>
  Claim C5 as stated fails: with the one record \<^verbatim>\<open>{"a": 5}\<close>, the column \<^verbatim>\<open>a\<close> keeps
  the integer 5 under the tag \<^verbatim>\<open>int4\<close>, and holds the text \<^verbatim>\<open>'5'\<close> under the tag
  \<^verbatim>\<open>text\<close> and with no field metadata.
\<close>

theorem unknown_tag_differs_from_text:
  "records_to_dataframe_raw pandas_through_2 int4_fields a_records None
     = Inr \<lparr>df_index = RangeIndex 1, df_columns = [(''a'', [CInt 5])]\<rparr>
   \<and> records_to_dataframe_raw pandas_through_2 a_text_fields a_records None
     = Inr \<lparr>df_index = RangeIndex 1, df_columns = [(''a'', [CStr ''5''])]\<rparr>
   \<and> records_to_dataframe_raw pandas_through_2 (JList []) a_records None
     = Inr \<lparr>df_index = RangeIndex 1, df_columns = [(''a'', [CStr ''5''])]\<rparr>"
proof -
  have 1: "records_to_dataframe_raw pandas_through_2 int4_fields a_records None
     = Inr \<lparr>df_index = RangeIndex 1, df_columns = [(''a'', [CInt 5])]\<rparr>"
    by (simp add: raw_result [OF _ _ a_frame, where fd = "[''a'' \<mapsto> JStr ''int4'']"
          and fs = "[JDict [(''id'', JStr ''a''), (''type'', JStr ''int4'')]]"]
        int4_fields_def coerced_column_def vtype_of_def)
  have 2: "records_to_dataframe_raw pandas_through_2 a_text_fields a_records None
     = Inr \<lparr>df_index = RangeIndex 1, df_columns = [(''a'', [CStr ''5''])]\<rparr>"
    by (simp add: raw_result [OF _ _ a_frame, where fd = "[''a'' \<mapsto> JStr ''text'']"
          and fs = "[JDict [(''id'', JStr ''a''), (''type'', JStr ''text'')]]"]
        a_text_fields_def coerced_column_def vtype_of_def astype_str_def pandas_through_2_fields
        str_int_5)
  have 3: "records_to_dataframe_raw pandas_through_2 (JList []) a_records None
     = Inr \<lparr>df_index = RangeIndex 1, df_columns = [(''a'', [CStr ''5''])]\<rparr>"
    by (simp add: raw_result [OF _ _ a_frame, where fd = "Map.empty" and fs = "[]"]
        coerced_column_def vtype_of_def astype_str_def pandas_through_2_fields str_int_5)
  from 1 2 3 show ?thesis by blast
qed

text \<open>
  Claim C6, as amended. Both coercers are called with \<^verbatim>\<open>errors='coerce'\<close>: in a numeric
  column a cell that does not parse as a number becomes \<^verbatim>\<open>NaN\<close>, in a timestamp column
  a cell that does not parse as a date-time becomes \<^verbatim>\<open>NaT\<close>, and neither raises. The
  function returns a table for every list of records that are dicts and every list of
  field entries that are dicts with a hashable \<^verbatim>\<open>'id'\<close> and a \<^verbatim>\<open>'type'\<close>.
\<close>

theorem coerce_mode_returns_table:
  assumes "list_all field_ok fs" and "list_all is_dict vs"
  shows "\<exists>fd df0 df. field_dict_of fs Map.empty = Inr fd
           \<and> build_frame pd (JList vs) columns = Inr df0
           \<and> records_to_dataframe_raw pd (JList fs) (JList vs) columns = Inr df
           \<and> length (df_columns df) = length (df_columns df0)
           \<and> (\<forall>i c col. i < length (df_columns df0) \<and> df_columns df0 ! i = (c, col) \<longrightarrow>
                 (fd c = Some (JStr ''numeric'') \<longrightarrow>
                    df_columns df ! i
                      = (c, map (\<lambda>x. case parse_numeric pd x of None \<Rightarrow> CNaN | Some v \<Rightarrow> v) col))
               \<and> (fd c = Some (JStr ''timestamp'') \<longrightarrow>
                    df_columns df ! i
                      = (c, map (\<lambda>x. case parse_datetime pd x of None \<Rightarrow> CNaT | Some v \<Rightarrow> v) col)))"
proof -
  from field_dict_of_ok [OF assms(1)] obtain fd where fd: "field_dict_of fs Map.empty = Inr fd"
    by blast
  from build_frame_ok [OF assms(2)] obtain df0 where
    df0: "build_frame pd (JList vs) columns = Inr df0"
    by blast
  have it: "py_iter (JList fs) = Inr fs" by simp
  let ?df = "df0\<lparr>df_columns :=
               map (\<lambda>(c, col). (c, coerced_column pd (vtype_of fd c) col)) (df_columns df0)\<rparr>"
  have r: "records_to_dataframe_raw pd (JList fs) (JList vs) columns = Inr ?df"
    by (rule raw_result [OF it fd df0])
  have n: "fd c = Some (JStr ''numeric'') \<Longrightarrow> coerced_column pd (vtype_of fd c) col
      = map (\<lambda>x. case parse_numeric pd x of None \<Rightarrow> CNaN | Some v \<Rightarrow> v) col" for c col
    by (auto simp: coerced_column_def vtype_of_def parse_or_def)
  have t: "fd c = Some (JStr ''timestamp'') \<Longrightarrow> coerced_column pd (vtype_of fd c) col
      = map (\<lambda>x. case parse_datetime pd x of None \<Rightarrow> CNaT | Some v \<Rightarrow> v) col" for c col
    by (auto simp: coerced_column_def vtype_of_def parse_or_def)
  have "\<forall>i c col. i < length (df_columns df0) \<and> df_columns df0 ! i = (c, col) \<longrightarrow>
                 (fd c = Some (JStr ''numeric'') \<longrightarrow>
                    df_columns ?df ! i
                      = (c, map (\<lambda>x. case parse_numeric pd x of None \<Rightarrow> CNaN | Some v \<Rightarrow> v) col))
               \<and> (fd c = Some (JStr ''timestamp'') \<longrightarrow>
                    df_columns ?df ! i
                      = (c, map (\<lambda>x. case parse_datetime pd x of None \<Rightarrow> CNaT | Some v \<Rightarrow> v) col))"
    using n t by simp
  moreover have "length (df_columns ?df) = length (df_columns df0)" by simp
  ultimately show ?thesis using fd df0 r by blast
qed

theorem coerce_mode_returns_table_witness:
  "list_all field_ok typed_fields \<and> list_all is_dict junk_records
   \<and> (\<exists>df. records_to_dataframe_raw pandas_through_2 (JList typed_fields) (JList junk_records) None
              = Inr df
          \<and> df_columns df = [(''VALUE'', [CNaN]), (''DATETIME'', [CNaT])])"
proof -
  have a: "list_all field_ok typed_fields" by (simp add: typed_fields_def)
  have b: "list_all is_dict junk_records" by (simp add: junk_records_def)
  from coerce_mode_returns_table [OF a b, of pandas_through_2 None] obtain fd df0 df where
    fd: "field_dict_of typed_fields Map.empty = Inr fd"
    and df0: "build_frame pandas_through_2 (JList junk_records) None = Inr df0"
    and df: "records_to_dataframe_raw pandas_through_2 (JList typed_fields) (JList junk_records) None
               = Inr df"
    and len: "length (df_columns df) = length (df_columns df0)"
    and cells: "\<And>i c col. i < length (df_columns df0) \<Longrightarrow> df_columns df0 ! i = (c, col) \<Longrightarrow>
                 (fd c = Some (JStr ''numeric'') \<longrightarrow>
                    df_columns df ! i
                      = (c, map (\<lambda>x. case parse_numeric pandas_through_2 x of None \<Rightarrow> CNaN | Some v \<Rightarrow> v) col))
               \<and> (fd c = Some (JStr ''timestamp'') \<longrightarrow>
                    df_columns df ! i
                      = (c, map (\<lambda>x. case parse_datetime pandas_through_2 x of None \<Rightarrow> CNaT | Some v \<Rightarrow> v) col))"
    by blast
  from fd have fd': "fd = [''VALUE'' \<mapsto> JStr ''numeric'', ''DATETIME'' \<mapsto> JStr ''timestamp'']"
    by (simp add: typed_field_dict)
  from df0 have df0': "df_columns df0 = [(''VALUE'', [CStr ''abc'']), (''DATETIME'', [CStr ''junk''])]"
    by (auto simp: junk_frame)
  from cells [of 0 "''VALUE''" "[CStr ''abc'']"] have c0: "df_columns df ! 0 = (''VALUE'', [CNaN])"
    by (simp add: df0' fd' pandas_through_2_fields)
  from cells [of 1 "''DATETIME''" "[CStr ''junk'']"] have c1: "df_columns df ! 1 = (''DATETIME'', [CNaT])"
    by (simp add: df0' fd' pandas_through_2_fields)
  from len df0' have "length (df_columns df) = 2" by simp
  with c0 c1 have "df_columns df = [(''VALUE'', [CNaN]), (''DATETIME'', [CNaT])]"
    by (cases "df_columns df"; cases "tl (df_columns df)") auto
  with a b df show ?thesis by blast
qed

text \<open>
  Claim C6 as stated fails: a field entry without \<^verbatim>\<open>'type'\<close> makes line 190 raise
  \<^verbatim>\<open>KeyError\<close>, so the function does not return a table for every input.
\<close>

theorem field_without_type_raises:
  "records_to_dataframe_raw pandas_through_2 (JList [JDict [(''id'', JStr ''a'')]]) (JList []) None
     = Inl (Exn (OtherException ''KeyError'') ([sq] @ ''type'' @ [sq]) None)"
  by (simp add: records_to_dataframe_raw_def)

end
